theory Spec2Isabelle
  imports Complex_Main "HOL-Library.AList" "HOL-Library.Word"
begin

section \<open>JavaScript values\<close>

text \<open>
  The program (\<^verbatim>\<open>src/index.ts\<close>) works on dynamically typed values: the trees returned
  by the markup parser, the parameter object it builds from them and the brush object it
  projects. A number is a double; finite doubles are modelled by the real number they
  denote (negative zero is identified with zero), the three special values are
  constructors of their own. A string is a list of 8-bit characters. An object is the
  association list of its own properties (the first binding of a key is the property);
  an array is the list of its elements.
\<close>

datatype jsnum = NaN | PosInf | NegInf | Fin real

datatype jsval =
    JUndefined
  | JNull
  | JBool bool
  | JNum jsnum
  | JStr string
  | JArr "jsval list"
  | JObj "(string \<times> jsval) list"

datatype error = TypeError | ParseError | IOError

text \<open>ToBoolean: \<^verbatim>\<open>undefined\<close>, \<^verbatim>\<open>null\<close>, \<^verbatim>\<open>false\<close>, zero, not-a-number and the empty
  string are falsy; every other value, every object and array included, is truthy.\<close>

fun truthy :: "jsval \<Rightarrow> bool" where
  "truthy JUndefined = False"
| "truthy JNull = False"
| "truthy (JBool b) = b"
| "truthy (JNum n) = (n \<noteq> NaN \<and> n \<noteq> Fin 0)"
| "truthy (JStr s) = (s \<noteq> [])"
| "truthy (JArr xs) = True"
| "truthy (JObj al) = True"

text \<open>The operator \<^verbatim>\<open>a || b\<close>: the left operand when it is truthy, else the right one.\<close>

definition lor :: "jsval \<Rightarrow> jsval \<Rightarrow> jsval" where
  "lor a b = (if truthy a then a else b)"

text \<open>The tests \<^verbatim>\<open>v !== null && v !== undefined\<close> and \<^verbatim>\<open>Array.isArray(v)\<close>.\<close>

definition defined :: "jsval \<Rightarrow> bool" where
  "defined v = (v \<noteq> JNull \<and> v \<noteq> JUndefined)"

fun isArray :: "jsval \<Rightarrow> bool" where
  "isArray (JArr xs) = True"
| "isArray v = False"

text \<open>
  A property read \<^verbatim>\<open>v.k\<close>. The program reads only the fixed keys \<^verbatim>\<open>Preset\<close>, \<^verbatim>\<open>Brush\<close>,
  \<^verbatim>\<open>MaskGenerator\<close>, \<^verbatim>\<open>maskGenerator\<close>, \<^verbatim>\<open>preset\<close>, \<^verbatim>\<open>name\<close>, \<^verbatim>\<open>paintopid\<close>, \<^verbatim>\<open>param\<close>,
  \<^verbatim>\<open>value\<close>, \<^verbatim>\<open>text\<close>, \<^verbatim>\<open>cdata\<close>, \<^verbatim>\<open>params\<close>, \<^verbatim>\<open>curve\<close> and the descriptor fields; none of
  them is a built-in property of a string, number, boolean or array, nor of
  \<^verbatim>\<open>Object.prototype\<close>, so the read gives the own property of an object and
  \<^verbatim>\<open>undefined\<close> otherwise. On \<^verbatim>\<open>null\<close> and \<^verbatim>\<open>undefined\<close> the read throws a TypeError
  (\<open>getProp\<close>); \<open>get\<close> is the read at the places where the receiver was tested truthy.
\<close>

fun get :: "jsval \<Rightarrow> string \<Rightarrow> jsval" where
  "get (JObj al) k = (case map_of al k of Some v \<Rightarrow> v | None \<Rightarrow> JUndefined)"
| "get v k = JUndefined"

definition getProp :: "jsval \<Rightarrow> string \<Rightarrow> error + jsval" where
  "getProp v k = (if defined v then Inr (get v k) else Inl TypeError)"

text \<open>Optional chaining \<^verbatim>\<open>v?.k\<close>: \<^verbatim>\<open>undefined\<close> when \<open>v\<close> is \<^verbatim>\<open>null\<close> or \<^verbatim>\<open>undefined\<close>.\<close>

definition optGet :: "jsval \<Rightarrow> string \<Rightarrow> jsval" where
  "optGet v k = (if defined v then get v k else JUndefined)"

subsection \<open>The collaborators outside the repository\<close>

text \<open>
  The markup parser (\<^verbatim>\<open>xmlParser.parse\<close>, which may throw), the language's conversion
  between numbers and their decimal text, the base64 decoder (\<^verbatim>\<open>Buffer.from\<close>) and the
  file system are not code of this repository. They are parameters of the model: every
  theorem below holds for all of them. A write that fails throws.
\<close>

datatype outdir = XmlDir | JsonDir | BrushesDir | PatternsDir

type_synonym outfile = "outdir \<times> string"

datatype content = RawData jsval | JsonText jsval | Bytes "8 word list"

record env =
  xmlParse :: "jsval \<Rightarrow> error + jsval"
  numToString :: "jsnum \<Rightarrow> string"
  litToNum :: "string \<Rightarrow> jsnum"
  bufferFromBase64 :: "string \<Rightarrow> 8 word list"
  fsWrite :: "outfile \<Rightarrow> content \<Rightarrow> bool"

subsection \<open>ToString and parseFloat\<close>

text \<open>
  ToString, as property keys and \<^verbatim>\<open>parseFloat\<close> apply it. An array is joined with commas,
  \<^verbatim>\<open>null\<close> and \<^verbatim>\<open>undefined\<close> elements giving the empty string. A plain object gives
  \<^verbatim>\<open>[object Object]\<close>, unless it has an own property \<^verbatim>\<open>toString\<close>: a parsed tree holds no
  function, so that property is not callable, the inherited \<^verbatim>\<open>valueOf\<close> returns the object
  itself, and the conversion throws a TypeError.
\<close>

fun toStr :: "(jsnum \<Rightarrow> string) \<Rightarrow> jsval \<Rightarrow> error + string"
  and joinElems :: "(jsnum \<Rightarrow> string) \<Rightarrow> jsval list \<Rightarrow> error + string" where
  "toStr nts JUndefined = Inr ''undefined''"
| "toStr nts JNull = Inr ''null''"
| "toStr nts (JBool b) = Inr (if b then ''true'' else ''false'')"
| "toStr nts (JNum n) = Inr (nts n)"
| "toStr nts (JStr s) = Inr s"
| "toStr nts (JArr xs) = joinElems nts xs"
| "toStr nts (JObj al) =
     (if map_of al ''toString'' = None then Inr ''[object Object]'' else Inl TypeError)"
| "joinElems nts [] = Inr []"
| "joinElems nts (x # xs) =
     (case (if x = JNull \<or> x = JUndefined then Inr [] else toStr nts x) of
        Inl e \<Rightarrow> Inl e
      | Inr s \<Rightarrow>
          (if xs = [] then Inr s
           else (case joinElems nts xs of Inl e \<Rightarrow> Inl e | Inr r \<Rightarrow> Inr (s @ '','' @ r))))"

definition isDigit :: "char \<Rightarrow> bool" where
  "isDigit c = (c \<in> set ''0123456789'')"

text \<open>The white space \<^verbatim>\<open>parseFloat\<close> skips, among the 8-bit characters: tab, line feed,
  vertical tab, form feed, carriage return, space and no-break space.\<close>

definition isWhite :: "char \<Rightarrow> bool" where
  "isWhite c = (of_char c \<in> {9, 10, 11, 12, 13, 32, 160 :: nat})"

definition trimStart :: "string \<Rightarrow> string" where
  "trimStart s = dropWhile isWhite s"

fun optSign :: "string \<Rightarrow> string \<times> string" where
  "optSign [] = ([], [])"
| "optSign (c # cs) = (if c = CHR ''+'' \<or> c = CHR ''-'' then ([c], cs) else ([], c # cs))"

text \<open>The exponent part at the head of a string (\<^verbatim>\<open>e\<close> or \<^verbatim>\<open>E\<close>, an optional sign, at least
  one digit), or the empty string when there is none.\<close>

fun expPart :: "string \<Rightarrow> string" where
  "expPart [] = []"
| "expPart (c # cs) =
     (if c = CHR ''e'' \<or> c = CHR ''E'' then
        (let (sg, r) = optSign cs; ds = takeWhile isDigit r
         in if ds = [] then [] else c # sg @ ds)
      else [])"

text \<open>The longest prefix that is a StrUnsignedDecimalLiteral: \<^verbatim>\<open>Infinity\<close>, digits with an
  optional fraction and exponent, or a dot followed by digits and an optional exponent.\<close>

definition unsignedPrefix :: "string \<Rightarrow> string option" where
  "unsignedPrefix s =
     (if take 8 s = ''Infinity'' then Some ''Infinity''
      else
        (let ds = takeWhile isDigit s; r = dropWhile isDigit s in
         (case r of
            c # r1 \<Rightarrow>
              (if c = CHR ''.'' then
                 (let fs = takeWhile isDigit r1; r2 = dropWhile isDigit r1 in
                  if ds = [] \<and> fs = [] then None else Some (ds @ ''.'' @ fs @ expPart r2))
               else if ds = [] then None else Some (ds @ expPart r))
          | [] \<Rightarrow> (if ds = [] then None else Some ds))))"

definition decimalPrefix :: "string \<Rightarrow> string option" where
  "decimalPrefix s = (let (sg, r) = optSign s in map_option ((@) sg) (unsignedPrefix r))"

text \<open>
  \<^verbatim>\<open>parseFloat(v)\<close>: the argument is converted to a string, leading white space is
  skipped, and the longest prefix that is a decimal literal is converted to a number;
  when no prefix is one, the result is not-a-number.
\<close>

definition parseFloat :: "env \<Rightarrow> jsval \<Rightarrow> error + jsnum" where
  "parseFloat E v =
     (case toStr (numToString E) v of
        Inl e \<Rightarrow> Inl e
      | Inr s \<Rightarrow>
          Inr (case decimalPrefix (trimStart s) of
                 None \<Rightarrow> NaN
               | Some lit \<Rightarrow> litToNum E lit))"

section \<open>The brush descriptor (\<^verbatim>\<open>parseBrushDefinition\<close>, lines 39-73)\<close>

text \<open>
  The nested markup is parsed; a missing \<^verbatim>\<open>Brush\<close> root gives \<^verbatim>\<open>null\<close>; every exception
  inside the \<^verbatim>\<open>try\<close> block is caught and gives \<^verbatim>\<open>null\<close> too. Each of the seven descriptor
  fields is \<^verbatim>\<open>brush.f || null\<close>; when \<^verbatim>\<open>brush.MaskGenerator\<close> is truthy the result gets a
  \<^verbatim>\<open>maskGenerator\<close> object whose six fields are built the same way.
\<close>

definition brushFields :: "string list" where
  "brushFields =
     [''type'', ''spacing'', ''angle'', ''scale'', ''randomness'', ''density'', ''filename'']"

definition maskFields :: "string list" where
  "maskFields = [''type'', ''diameter'', ''ratio'', ''hfade'', ''vfade'', ''spikes'']"

definition orNull :: "jsval \<Rightarrow> string \<Rightarrow> string \<times> jsval" where
  "orNull v f = (f, lor (get v f) JNull)"

definition parseBrushDefinition :: "env \<Rightarrow> jsval \<Rightarrow> jsval" where
  "parseBrushDefinition E brushDefXml =
     (case xmlParse E brushDefXml of
        Inl e \<Rightarrow> JNull
      | Inr parsed \<Rightarrow>
          (case getProp parsed ''Brush'' of
             Inl e \<Rightarrow> JNull
           | Inr brush \<Rightarrow>
               (if \<not> truthy brush then JNull
                else
                  (let result = map (orNull brush) brushFields in
                   if truthy (get brush ''MaskGenerator'') then
                     JObj (result @
                       [(''maskGenerator'',
                         JObj (map (orNull (get brush ''MaskGenerator'')) maskFields))])
                   else JObj result))))"

section \<open>The parameter object\<close>

text \<open>
  \<^verbatim>\<open>transformedObj.parameters\<close> starts as the empty object literal. Its own properties are
  what \<^verbatim>\<open>JSON.stringify\<close> writes, in the order the language enumerates them: the array
  indices (the canonical decimal texts of the integers below 4294967295) in ascending order
  first, then the other keys in the order of their creation. The list of own properties
  is kept in that order. An assignment \<^verbatim>\<open>parameters[k] = v\<close> creates or overwrites
  the own property \<open>k\<close>, with one exception of the language: for the key \<^verbatim>\<open>__proto__\<close> the
  assignment reaches the accessor inherited from \<^verbatim>\<open>Object.prototype\<close>, which replaces the
  object's prototype when \<open>v\<close> is an object or an array and does nothing for any other
  value (the values assigned here are never \<^verbatim>\<open>null\<close>). The accessor is not reached when
  the object, or the parsed tree that has become its prototype, has an own property of
  that name; then the assignment is an ordinary one. Parsed trees are plain objects and
  arrays. A read looks at the own properties first and then at those of the prototype.
\<close>

record pobj =
  own :: "(string \<times> jsval) list"
  proto :: "jsval option"

definition emptyObj :: pobj where
  "emptyObj = \<lparr>own = [], proto = None\<rparr>"

definition pget :: "pobj \<Rightarrow> string \<Rightarrow> jsval" where
  "pget p k =
     (case map_of (own p) k of
        Some v \<Rightarrow> v
      | None \<Rightarrow> (case proto p of Some q \<Rightarrow> get q k | None \<Rightarrow> JUndefined))"

definition shadowsProto :: "pobj \<Rightarrow> bool" where
  "shadowsProto p =
     (map_of (own p) ''__proto__'' \<noteq> None \<or>
      (case proto p of Some (JObj al) \<Rightarrow> map_of al ''__proto__'' \<noteq> None | _ \<Rightarrow> False))"

definition isObject :: "jsval \<Rightarrow> bool" where
  "isObject v = (case v of JObj al \<Rightarrow> True | JArr xs \<Rightarrow> True | _ \<Rightarrow> False)"

definition decimalValue :: "string \<Rightarrow> nat" where
  "decimalValue s = foldl (\<lambda>n c. 10 * n + (of_char c - 48)) 0 s"

definition isArrayIndex :: "string \<Rightarrow> bool" where
  "isArrayIndex s =
     (case s of
        [] \<Rightarrow> False
      | c # cs \<Rightarrow>
          list_all isDigit s \<and> (c \<noteq> CHR ''0'' \<or> cs = []) \<and> decimalValue s < 4294967295)"

text \<open>A new own property takes its place in the enumeration order: an array index before
  the first key that is not one or is a greater one, any other key at the end.\<close>

fun insertKey :: "string \<Rightarrow> jsval \<Rightarrow> (string \<times> jsval) list \<Rightarrow> (string \<times> jsval) list" where
  "insertKey k v [] = [(k, v)]"
| "insertKey k v (e # al) =
     (if isArrayIndex k \<and> (\<not> isArrayIndex (fst e) \<or> decimalValue k < decimalValue (fst e))
      then (k, v) # e # al
      else e # insertKey k v al)"

definition setOwn :: "string \<Rightarrow> jsval \<Rightarrow> (string \<times> jsval) list \<Rightarrow> (string \<times> jsval) list" where
  "setOwn k v al = (if map_of al k = None then insertKey k v al else AList.update k v al)"

definition setParam :: "pobj \<Rightarrow> string \<Rightarrow> jsval \<Rightarrow> pobj" where
  "setParam p k v =
     (if k = ''__proto__'' \<and> \<not> shadowsProto p then
        (if isObject v then p\<lparr>proto := Some v\<rparr> else p)
      else p\<lparr>own := setOwn k v (own p)\<rparr>)"

section \<open>The brush output (\<^verbatim>\<open>extractBrushParameters\<close>, lines 76-197)\<close>

text \<open>
  \<^verbatim>\<open>brushData\<close> is built by conditional assignments in a fixed order; none of its keys is
  an array index, so a new key goes to the end of the enumeration. The two guards the
  source repeats: \<^verbatim>\<open>if (v !== null && v !== undefined) brushData.k = v\<close> and
  \<^verbatim>\<open>if (v) brushData.k = v\<close>.
\<close>

type_synonym brush = "(string \<times> jsval) list"

definition putDefined :: "string \<Rightarrow> jsval \<Rightarrow> brush \<Rightarrow> brush" where
  "putDefined k v bd = (if defined v then AList.update k v bd else bd)"

definition putTruthy :: "string \<Rightarrow> jsval \<Rightarrow> brush \<Rightarrow> brush" where
  "putTruthy k v bd = (if truthy v then AList.update k v bd else bd)"

text \<open>Lines 107-138: the mask generator's fields, \<^verbatim>\<open>diameter\<close> as \<^verbatim>\<open>size\<close> and \<^verbatim>\<open>ratio\<close> as
  \<^verbatim>\<open>roundness\<close>; its \<^verbatim>\<open>type\<close> is not projected.\<close>

definition maskPart :: "jsval \<Rightarrow> brush \<Rightarrow> brush" where
  "maskPart brushDef bd =
     (let mg = get brushDef ''maskGenerator'' in
      if truthy mg then
        putDefined ''spikes'' (get mg ''spikes'')
          (putDefined ''vfade'' (get mg ''vfade'')
            (putDefined ''hfade'' (get mg ''hfade'')
              (putDefined ''roundness'' (get mg ''ratio'')
                (putDefined ''size'' (get mg ''diameter'') bd))))
      else bd)"

text \<open>Lines 84-138, for a truthy \<^verbatim>\<open>brushDef\<close>.\<close>

definition shapePart :: "jsval \<Rightarrow> brush \<Rightarrow> brush" where
  "shapePart brushDef bd =
     maskPart brushDef
       (putTruthy ''type'' (get brushDef ''type'')
         (putTruthy ''filename'' (get brushDef ''filename'')
           (putDefined ''density'' (get brushDef ''density'')
             (putDefined ''randomness'' (get brushDef ''randomness'')
               (putDefined ''scale'' (get brushDef ''scale'')
                 (putDefined ''angle'' (get brushDef ''angle'')
                   (putDefined ''spacing'' (get brushDef ''spacing'') bd)))))))"

text \<open>Lines 80-140.\<close>

definition definitionPart :: "env \<Rightarrow> pobj \<Rightarrow> brush \<Rightarrow> brush" where
  "definitionPart E parameters bd =
     (if truthy (pget parameters ''brush_definition'') then
        (let brushDef = parseBrushDefinition E (pget parameters ''brush_definition'') in
         if truthy brushDef then shapePart brushDef bd else bd)
      else bd)"

text \<open>Lines 143-157.\<close>

definition dynamicPart :: "pobj \<Rightarrow> brush \<Rightarrow> brush" where
  "dynamicPart parameters bd =
     putDefined ''flow'' (pget parameters ''FlowValue'')
       (putDefined ''scatter'' (pget parameters ''ScatterValue'')
         (putDefined ''opacity'' (pget parameters ''OpacityValue'') bd))"

text \<open>Lines 160-176: the loop over the entries of \<^verbatim>\<open>sensorMappings\<close>, in their order.\<close>

definition sensorMappings :: "(string \<times> string) list" where
  "sensorMappings =
     [(''OpacitySensor'', ''pressureOpacity''),
      (''SizeSensor'', ''pressureSize''),
      (''RotationSensor'', ''pressureRotation''),
      (''ScatterSensor'', ''pressureScatter''),
      (''FlowSensor'', ''pressureFlow'')]"

definition sensorStep :: "pobj \<Rightarrow> brush \<Rightarrow> string \<times> string \<Rightarrow> brush" where
  "sensorStep parameters bd m =
     (case m of (paramKey, outputKey) \<Rightarrow>
        (if truthy (pget parameters paramKey) \<and>
            truthy (get (pget parameters paramKey) ''params'')
         then
           (let sensor = get (pget parameters paramKey) ''params'' in
            putDefined outputKey (get sensor ''curve'') bd)
         else bd))"

definition sensorPart :: "pobj \<Rightarrow> brush \<Rightarrow> brush" where
  "sensorPart parameters bd = foldl (sensorStep parameters) bd sensorMappings"

text \<open>Lines 179-194: both pattern fields stand under the test of
  \<^verbatim>\<open>Texture/Pattern/Pattern\<close>; the strength goes through \<^verbatim>\<open>parseFloat\<close>, whose conversion of
  its argument to a string is the one step of the function that can throw.\<close>

definition patternPart :: "env \<Rightarrow> pobj \<Rightarrow> brush \<Rightarrow> error + brush" where
  "patternPart E parameters bd =
     (if truthy (pget parameters ''Texture/Pattern/Pattern'') then
        (let bd1 = putDefined ''patternScale'' (pget parameters ''Texture/Pattern/Scale'') bd in
         if defined (pget parameters ''Texture/Pattern/Strength'') then
           (case parseFloat E (pget parameters ''Texture/Pattern/Strength'') of
              Inl e \<Rightarrow> Inl e
            | Inr n \<Rightarrow> Inr (AList.update ''patternStrength'' (JNum n) bd1))
         else Inr bd1)
      else Inr bd)"

definition extractBrushParameters :: "env \<Rightarrow> pobj \<Rightarrow> error + brush" where
  "extractBrushParameters E parameters =
     patternPart E parameters
       (sensorPart parameters (dynamicPart parameters (definitionPart E parameters [])))"

section \<open>The preset decoder (main loop, lines 252-272)\<close>

text \<open>Line 269: \<^verbatim>\<open>param.value || param.text || param.cdata || ""\<close>.\<close>

definition paramValue :: "jsval \<Rightarrow> jsval" where
  "paramValue param =
     lor (lor (lor (get param ''value'') (get param ''text'')) (get param ''cdata'')) (JStr [])"

text \<open>Lines 267-270, one turn of the loop: reading \<^verbatim>\<open>param.name\<close> throws when the entry is
  \<^verbatim>\<open>null\<close> or \<^verbatim>\<open>undefined\<close>; a truthy name is converted to a property key (which can
  throw) and assigned.\<close>

definition flattenStep :: "env \<Rightarrow> pobj \<Rightarrow> jsval \<Rightarrow> error + pobj" where
  "flattenStep E acc param =
     (case getProp param ''name'' of
        Inl e \<Rightarrow> Inl e
      | Inr n \<Rightarrow>
          (if truthy n then
             (case toStr (numToString E) n of
                Inl e \<Rightarrow> Inl e
              | Inr k \<Rightarrow> Inr (setParam acc k (paramValue param)))
           else Inr acc))"

fun flattenParams :: "env \<Rightarrow> jsval list \<Rightarrow> pobj \<Rightarrow> error + pobj" where
  "flattenParams E [] acc = Inr acc"
| "flattenParams E (param # params) acc =
     (case flattenStep E acc param of
        Inl e \<Rightarrow> Inl e
      | Inr acc' \<Rightarrow> flattenParams E params acc')"

text \<open>Lines 262-264: \<^verbatim>\<open>Array.isArray(p) ? p : [p]\<close>.\<close>

fun toSeq :: "jsval \<Rightarrow> jsval list" where
  "toSeq (JArr xs) = xs"
| "toSeq v = [v]"

record transformed =
  name :: jsval
  paintopid :: jsval
  parameters :: pobj

text \<open>Lines 254-272. \<^verbatim>\<open>jsonObj.Preset\<close> throws when the parser returned \<^verbatim>\<open>null\<close> or
  \<^verbatim>\<open>undefined\<close>; the fields of the root are read with optional chaining.\<close>

definition decodePreset :: "env \<Rightarrow> jsval \<Rightarrow> error + transformed" where
  "decodePreset E jsonObj =
     (case getProp jsonObj ''Preset'' of
        Inl e \<Rightarrow> Inl e
      | Inr preset \<Rightarrow>
          (case (if truthy (optGet preset ''param'')
                 then flattenParams E (toSeq (get preset ''param'')) emptyObj
                 else Inr emptyObj) of
             Inl e \<Rightarrow> Inl e
           | Inr ps \<Rightarrow>
               Inr \<lparr>name = lor (optGet preset ''name'') (JStr []),
                    paintopid = lor (optGet preset ''paintopid'') (JStr []),
                    parameters = ps\<rparr>))"

section \<open>The pattern extractor (\<^verbatim>\<open>savePatternBitmap\<close>, lines 200-211)\<close>

text \<open>The characters of \<^verbatim>\<open>\w\<close>, and the replacement of line 203: the prefix matched by
  \<^verbatim>\<open>^data:image\/\w+;base64,\<close> is removed. The greedy \<^verbatim>\<open>\w+\<close> takes the whole run of word
  characters; no shorter run can be followed by the semicolon.\<close>

definition isWordChar :: "char \<Rightarrow> bool" where
  "isWordChar c =
     (c \<in> set ''abcdefghijklmnopqrstuvwxyzABCDEFGHIJKLMNOPQRSTUVWXYZ0123456789_'')"

definition stripDataUri :: "string \<Rightarrow> string" where
  "stripDataUri s =
     (if take 11 s = ''data:image/'' then
        (let w = takeWhile isWordChar (drop 11 s); r = dropWhile isWordChar (drop 11 s) in
         if w \<noteq> [] \<and> take 8 r = '';base64,'' then drop 8 r else s)
      else s)"

text \<open>Lines 203-204: the bytes handed to the write.\<close>

definition decodePattern :: "env \<Rightarrow> string \<Rightarrow> 8 word list" where
  "decodePattern E base64Data = bufferFromBase64 E (stripDataUri base64Data)"

text \<open>\<^verbatim>\<open>savePatternBitmap\<close> returns \<^verbatim>\<open>true\<close> after the write and \<^verbatim>\<open>false\<close> when anything threw:
  the write itself, or the call of \<^verbatim>\<open>replace\<close> on a value that is not a string (no other
  value of a parsed tree has a callable property of that name). The model returns the
  writes made beside the result.\<close>

definition savePatternBitmap ::
  "env \<Rightarrow> jsval \<Rightarrow> outfile \<Rightarrow> bool \<times> (outfile \<times> content) list" where
  "savePatternBitmap E base64Data outputPath =
     (case base64Data of
        JStr s \<Rightarrow>
          (let buffer = Bytes (decodePattern E s) in
           if fsWrite E outputPath buffer then (True, [(outputPath, buffer)])
           else (False, []))
      | _ \<Rightarrow> (False, []))"

section \<open>One turn of the main loop (lines 235-339)\<close>

text \<open>Lines 294-309: the pattern is saved when the parameter is truthy, and the file name
  is recorded in the brush output when the save returned \<^verbatim>\<open>true\<close>.\<close>

definition patternStep ::
  "env \<Rightarrow> string \<Rightarrow> pobj \<Rightarrow> brush \<Rightarrow> brush \<times> (outfile \<times> content) list" where
  "patternStep E baseName ps brushData =
     (if truthy (pget ps ''Texture/Pattern/Pattern'') then
        (case savePatternBitmap E (pget ps ''Texture/Pattern/Pattern'')
                (PatternsDir, baseName @ ''_pattern.png'') of
           (saved, ws) \<Rightarrow>
             (if saved
              then (AList.update ''patternFile'' (JStr (baseName @ ''_pattern.png'')) brushData, ws)
              else (brushData, ws)))
      else (brushData, []))"

datatype outcome = Skipped | Completed | Failed error

text \<open>The value \<^verbatim>\<open>JSON.stringify\<close> is applied to at line 284.\<close>

definition transformedJson :: "transformed \<Rightarrow> jsval" where
  "transformedJson t =
     JObj [(''name'', name t), (''paintopid'', paintopid t),
           (''parameters'', JObj (own (parameters t)))]"

text \<open>The value \<^verbatim>\<open>JSON.stringify\<close> is applied to at lines 318-326.\<close>

definition brushJson :: "transformed \<Rightarrow> brush \<Rightarrow> jsval" where
  "brushJson t brushData =
     JObj [(''name'', name t), (''paintopid'', paintopid t), (''brush'', JObj brushData)]"

text \<open>
  The body of the loop for one file, given the file's base name and the tags
  \<^verbatim>\<open>ExifReader.load\<close> returned for it: the list of the files written, in order, and how the
  turn ended. A missing preset tag skips the file; every exception ends the turn at the
  \<^verbatim>\<open>catch\<close> of line 332, the files written before it staying written.
\<close>

definition processFile ::
  "env \<Rightarrow> string \<Rightarrow> jsval \<Rightarrow> (outfile \<times> content) list \<times> outcome" where
  "processFile E baseName tags =
     (if \<not> defined tags then ([], Failed TypeError)
      else if \<not> truthy (get tags ''preset'') \<or> \<not> truthy (get (get tags ''preset'') ''value'')
      then ([], Skipped)
      else
        (let raw = get (get tags ''preset'') ''value'' in
         case xmlParse E raw of
           Inl e \<Rightarrow> ([], Failed e)
         | Inr jsonObj \<Rightarrow>
             (case decodePreset E jsonObj of
                Inl e \<Rightarrow> ([], Failed e)
              | Inr t \<Rightarrow>
                  (let xmlW = ((XmlDir, baseName @ ''.xml''), RawData raw);
                       jsonW = ((JsonDir, baseName @ ''.json''), JsonText (transformedJson t))
                   in
                   if \<not> fsWrite E (fst xmlW) (snd xmlW) then ([], Failed IOError)
                   else if \<not> fsWrite E (fst jsonW) (snd jsonW) then ([xmlW], Failed IOError)
                   else
                     (case extractBrushParameters E (parameters t) of
                        Inl e \<Rightarrow> ([xmlW, jsonW], Failed e)
                      | Inr brushData \<Rightarrow>
                          (case patternStep E baseName (parameters t) brushData of
                             (brushData', pw) \<Rightarrow>
                               (let brushW = ((BrushesDir, baseName @ ''_brush.json''),
                                              JsonText (brushJson t brushData'))
                                in
                                if \<not> fsWrite E (fst brushW) (snd brushW)
                                then ([xmlW, jsonW] @ pw, Failed IOError)
                                else ([xmlW, jsonW] @ pw @ [brushW], Completed))))))))"

section \<open>The vocabulary of the properties\<close>

text \<open>The keys of the brush output that come from the brush definition: the seven
  descriptor fields and the five projected from the mask generator.\<close>

definition shapeKeys :: "string list" where
  "shapeKeys =
     [''type'', ''spacing'', ''angle'', ''scale'', ''randomness'', ''density'', ''filename'',
      ''size'', ''roundness'', ''hfade'', ''vfade'', ''spikes'']"

text \<open>The mask generator's fields that are projected, each with its output key.\<close>

definition maskOutputs :: "(string \<times> string) list" where
  "maskOutputs =
     [(''diameter'', ''size''), (''ratio'', ''roundness''), (''hfade'', ''hfade''),
      (''vfade'', ''vfade''), (''spikes'', ''spikes'')]"

text \<open>The curve of a sensor parameter, \<^verbatim>\<open>parameters[paramKey].params.curve\<close>; it is
  \<^verbatim>\<open>undefined\<close> when the parameter or its \<^verbatim>\<open>params\<close> is not an object.\<close>

definition sensorCurve :: "pobj \<Rightarrow> string \<Rightarrow> jsval" where
  "sensorCurve p paramKey = get (get (pget p paramKey) ''params'') ''curve''"

text \<open>The key a param entry is stored under, when it is stored: the text of its truthy
  name. The last entry of a list stored under a key.\<close>

definition keyOf :: "env \<Rightarrow> jsval \<Rightarrow> string option" where
  "keyOf E param =
     (if defined param \<and> truthy (get param ''name'') then
        (case toStr (numToString E) (get param ''name'') of
           Inr k \<Rightarrow> Some k
         | Inl e \<Rightarrow> None)
      else None)"

definition lastNamed :: "env \<Rightarrow> string \<Rightarrow> jsval list \<Rightarrow> jsval option" where
  "lastNamed E k params = List.find (\<lambda>q. keyOf E q = Some k) (rev params)"

text \<open>The value of an entry in the words of the specification, for comparison with the
  code: the first of the value, text and CDATA fields that is not absent, else the empty
  string.\<close>

definition specParamValue :: "jsval \<Rightarrow> jsval" where
  "specParamValue param =
     (if get param ''value'' \<noteq> JUndefined then get param ''value''
      else if get param ''text'' \<noteq> JUndefined then get param ''text''
      else if get param ''cdata'' \<noteq> JUndefined then get param ''cdata''
      else JStr [])"

text \<open>The characters of a base64 payload, and the header of a data URI with a given
  subtype.\<close>

definition isBase64Char :: "char \<Rightarrow> bool" where
  "isBase64Char c =
     (c \<in> set ''ABCDEFGHIJKLMNOPQRSTUVWXYZabcdefghijklmnopqrstuvwxyz0123456789+/='')"

definition dataUriHeader :: "string \<Rightarrow> string" where
  "dataUriHeader subtype = ''data:image/'' @ subtype @ '';base64,''"


section \<open>Examples\<close>

text \<open>
  An environment to run the model in. Its parser knows the markup texts below, with the
  trees the program's parser configuration gives for them (child elements become fields,
  numeric text becomes a number, an empty element the empty string), and throws on any
  other text. Its number conversions are a table of the few the examples need. Its
  base64 decoder skips the characters outside the alphabet and stops at the padding, and
  all its writes succeed.
\<close>

definition exampleTrees :: "(string \<times> jsval) list" where
  "exampleTrees =
     [(''<Brush><type>auto</type><spacing>0.1</spacing><MaskGenerator><type>circle</type><diameter>50</diameter><ratio>1</ratio></MaskGenerator></Brush>'',
       JObj [(''Brush'',
         JObj [(''type'', JStr ''auto''), (''spacing'', JNum (Fin (1 / 10))),
               (''MaskGenerator'',
                JObj [(''type'', JStr ''circle''), (''diameter'', JNum (Fin 50)),
                      (''ratio'', JNum (Fin 1))])])]),
      (''<Brush><spacing>0</spacing><MaskGenerator><type>circle</type></MaskGenerator></Brush>'',
       JObj [(''Brush'',
         JObj [(''spacing'', JNum (Fin 0)),
               (''MaskGenerator'', JObj [(''type'', JStr ''circle'')])])]),
      (''<Settings></Settings>'', JObj [(''Settings'', JStr [])]),
      (''<Preset><name>Ink</name></Preset>'', JObj [(''Preset'', JObj [(''name'', JStr ''Ink'')])]),
      (''<Preset><name>Ink</name><paintopid>paintbrush</paintopid><param><name>Texture/Pattern/Pattern</name><value>data:image/png;base64,AAAA</value></param></Preset>'',
       JObj [(''Preset'',
         JObj [(''name'', JStr ''Ink''), (''paintopid'', JStr ''paintbrush''),
               (''param'',
                JObj [(''name'', JStr ''Texture/Pattern/Pattern''),
                      (''value'', JStr ''data:image/png;base64,AAAA'')])])])]"

definition exampleParse :: "jsval \<Rightarrow> error + jsval" where
  "exampleParse v =
     (case v of
        JStr s \<Rightarrow> (case map_of exampleTrees s of Some t \<Rightarrow> Inr t | None \<Rightarrow> Inl ParseError)
      | _ \<Rightarrow> Inl ParseError)"

definition exampleNumToString :: "jsnum \<Rightarrow> string" where
  "exampleNumToString n =
     (case n of
        NaN \<Rightarrow> ''NaN''
      | PosInf \<Rightarrow> ''Infinity''
      | NegInf \<Rightarrow> ''-Infinity''
      | Fin r \<Rightarrow>
          (if r = 1 then ''1'' else if r = 7 then ''7'' else if r = 1 / 2 then ''0.5''
           else ''0''))"

definition exampleLitToNum :: "string \<Rightarrow> jsnum" where
  "exampleLitToNum s =
     (if s = ''1'' then Fin 1 else if s = ''7'' then Fin 7 else if s = ''0.5'' then Fin (1 / 2)
      else Fin 0)"

fun indexOf :: "char \<Rightarrow> string \<Rightarrow> nat option" where
  "indexOf c [] = None"
| "indexOf c (x # xs) = (if c = x then Some 0 else map_option Suc (indexOf c xs))"

definition sextet :: "char \<Rightarrow> nat option" where
  "sextet c =
     (if c = CHR ''-'' then Some 62 else if c = CHR ''_'' then Some 63
      else indexOf c ''ABCDEFGHIJKLMNOPQRSTUVWXYZabcdefghijklmnopqrstuvwxyz0123456789+/'')"

fun sextets :: "string \<Rightarrow> nat list" where
  "sextets [] = []"
| "sextets (c # cs) =
     (if c = CHR ''='' then []
      else (case sextet c of Some n \<Rightarrow> n # sextets cs | None \<Rightarrow> sextets cs))"

fun groupBytes :: "nat list \<Rightarrow> 8 word list" where
  "groupBytes (a # b # c # d # rest) =
     [of_nat (a * 4 + b div 16), of_nat ((b mod 16) * 16 + c div 4), of_nat ((c mod 4) * 64 + d)]
       @ groupBytes rest"
| "groupBytes [a, b, c] = [of_nat (a * 4 + b div 16), of_nat ((b mod 16) * 16 + c div 4)]"
| "groupBytes [a, b] = [of_nat (a * 4 + b div 16)]"
| "groupBytes xs = []"

definition exampleBase64 :: "string \<Rightarrow> 8 word list" where
  "exampleBase64 s = groupBytes (sextets s)"

definition exampleEnv :: env where
  "exampleEnv =
     \<lparr>xmlParse = exampleParse, numToString = exampleNumToString, litToNum = exampleLitToNum,
      bufferFromBase64 = exampleBase64,
      fsWrite = (\<lambda>f c. True)\<rparr>"

text \<open>Parameter objects: one whose brush definition does not parse, beside an opacity and
  a size sensor; one with a pattern scale alone and one with a pattern strength alone;
  one with a pattern, a scale and a numeric strength; one with a pattern and the strength
  \<^verbatim>\<open>"abc"\<close>; one with an auto brush; and one whose brush has a spacing of zero and a mask
  generator with a type only.\<close>

definition unparsableParams :: pobj where
  "unparsableParams =
     \<lparr>own = [(''OpacityValue'', JNum (Fin (4 / 5))),
             (''brush_definition'', JStr ''<Brush''),
             (''SizeSensor'', JObj [(''params'', JObj [(''curve'', JStr ''0,0;1,1'')])])],
      proto = None\<rparr>"

definition scaleOnlyParams :: pobj where
  "scaleOnlyParams = \<lparr>own = [(''Texture/Pattern/Scale'', JNum (Fin 2))], proto = None\<rparr>"

definition strengthOnlyParams :: pobj where
  "strengthOnlyParams =
     \<lparr>own = [(''Texture/Pattern/Strength'', JStr ''abc'')], proto = None\<rparr>"

definition patternParams :: pobj where
  "patternParams =
     \<lparr>own = [(''Texture/Pattern/Pattern'', JStr ''data:image/png;base64,AAAA''),
             (''Texture/Pattern/Scale'', JNum (Fin 2)),
             (''Texture/Pattern/Strength'', JStr ''0.5'')],
      proto = None\<rparr>"

definition nanParams :: pobj where
  "nanParams =
     \<lparr>own = [(''Texture/Pattern/Pattern'', JStr ''AAAA''),
             (''Texture/Pattern/Strength'', JStr ''abc'')],
      proto = None\<rparr>"

definition autoBrushParams :: pobj where
  "autoBrushParams =
     \<lparr>own = [(''brush_definition'',
               JStr ''<Brush><type>auto</type><spacing>0.1</spacing><MaskGenerator><type>circle</type><diameter>50</diameter><ratio>1</ratio></MaskGenerator></Brush>'')],
      proto = None\<rparr>"

definition zeroSpacingParams :: pobj where
  "zeroSpacingParams =
     \<lparr>own = [(''brush_definition'',
               JStr ''<Brush><spacing>0</spacing><MaskGenerator><type>circle</type></MaskGenerator></Brush>'')],
      proto = None\<rparr>"

text \<open>Param entries and parsed presets: an ordinary entry; one whose name is the number
  zero; a preset with a repeated name and a numeric name; an entry whose value is the
  number zero, and the preset holding it.\<close>

definition coercionEntry :: jsval where
  "coercionEntry = JObj [(''name'', JStr ''OpacityValue''), (''value'', JStr ''v'')]"

definition falsyNameEntry :: "(string \<times> jsval) list" where
  "falsyNameEntry = [(''name'', JNum (Fin 0)), (''value'', JStr ''v'')]"

definition duplicatePreset :: jsval where
  "duplicatePreset =
     JObj [(''Preset'',
       JObj [(''name'', JStr ''Ink''),
             (''param'',
              JArr [JObj [(''name'', JStr ''x''), (''value'', JNum (Fin 1))],
                    JObj [(''name'', JNum (Fin 7)), (''cdata'', JStr ''c'')],
                    JObj [(''name'', JStr ''x''), (''text'', JStr ''t'')]])])]"

definition zeroValueEntry :: jsval where
  "zeroValueEntry = JObj [(''name'', JStr ''OpacityValue''), (''value'', JNum (Fin 0))]"

definition zeroValuePreset :: jsval where
  "zeroValuePreset = JObj [(''Preset'', JObj [(''param'', zeroValueEntry)])]"

text \<open>The tags of three files: markup without the \<^verbatim>\<open>Preset\<close> root, a preset without
  params, and a preset with a pattern.\<close>

definition rootlessTags :: jsval where
  "rootlessTags = JObj [(''preset'', JObj [(''value'', JStr ''<Settings></Settings>'')])]"

definition paramlessTags :: jsval where
  "paramlessTags =
     JObj [(''preset'', JObj [(''value'', JStr ''<Preset><name>Ink</name></Preset>'')])]"


section \<open>Auxiliary facts\<close>

subsection \<open>The parts of the brush output\<close>

lemma map_of_putDefined:
  "map_of (putDefined k v bd) k' = (if k' = k \<and> defined v then Some v else map_of bd k')"
  by (simp add: putDefined_def update_conv')

lemma map_of_putTruthy:
  "map_of (putTruthy k v bd) k' = (if k' = k \<and> truthy v then Some v else map_of bd k')"
  by (simp add: putTruthy_def update_conv')

lemma map_of_dynamicPart:
  "map_of (dynamicPart p bd) k =
     (if k = ''flow'' \<and> defined (pget p ''FlowValue'') then Some (pget p ''FlowValue'')
      else if k = ''scatter'' \<and> defined (pget p ''ScatterValue'') then Some (pget p ''ScatterValue'')
      else if k = ''opacity'' \<and> defined (pget p ''OpacityValue'') then Some (pget p ''OpacityValue'')
      else map_of bd k)"
  by (simp add: dynamicPart_def map_of_putDefined)

lemma get_defined_truthy: "defined (get v k) \<Longrightarrow> truthy v"
  by (cases v) (simp_all add: defined_def)

lemma truthy_defined: "truthy v \<Longrightarrow> defined v"
  by (cases v) (simp_all add: defined_def)

lemma map_of_sensorStep:
  "map_of (sensorStep p bd (pk, ok)) k =
     (if k = ok \<and> defined (sensorCurve p pk) then Some (sensorCurve p pk) else map_of bd k)"
proof (cases "defined (sensorCurve p pk)")
  case True
  then have t1: "truthy (get (pget p pk) ''params'')"
    unfolding sensorCurve_def by (rule get_defined_truthy)
  then have "defined (get (pget p pk) ''params'')" by (rule truthy_defined)
  then have "truthy (pget p pk)" by (rule get_defined_truthy)
  with True t1 show ?thesis
    by (simp add: sensorStep_def sensorCurve_def map_of_putDefined)
next
  case False
  then show ?thesis
    by (simp add: sensorStep_def sensorCurve_def map_of_putDefined)
qed

lemma map_of_sensor_fold:
  "distinct (map snd ms) \<Longrightarrow>
   map_of (foldl (sensorStep p) bd ms) k =
     (case List.find (\<lambda>m. snd m = k \<and> defined (sensorCurve p (fst m))) ms of
        Some m \<Rightarrow> Some (sensorCurve p (fst m))
      | None \<Rightarrow> map_of bd k)"
proof (induction ms arbitrary: bd)
  case Nil
  then show ?case by simp
next
  case (Cons m ms)
  obtain pk ok where m: "m = (pk, ok)" by (cases m)
  let ?P = "\<lambda>m. snd m = k \<and> defined (sensorCurve p (fst m))"
  from Cons.prems have d: "distinct (map snd ms)" by simp
  have IH: "map_of (foldl (sensorStep p) (sensorStep p bd (pk, ok)) ms) k =
     (case List.find ?P ms of
        Some m \<Rightarrow> Some (sensorCurve p (fst m))
      | None \<Rightarrow> map_of (sensorStep p bd (pk, ok)) k)"
    by (rule Cons.IH [OF d])
  show ?case
  proof (cases "k = ok")
    case True
    have f: "List.find ?P ms = None"
      using Cons.prems m True by (force simp: find_None_iff)
    with IH have "map_of (foldl (sensorStep p) (sensorStep p bd (pk, ok)) ms) k =
        map_of (sensorStep p bd (pk, ok)) k" by simp
    then show ?thesis
      using f by (simp add: m map_of_sensorStep)
  next
    case False
    with IH show ?thesis
      by (simp add: m map_of_sensorStep split: option.splits)
  qed
qed

lemma distinct_sensor_outputs: "distinct (map snd sensorMappings)"
  by (simp add: sensorMappings_def)

lemma sensorPart_other:
  "k \<notin> snd ` set sensorMappings \<Longrightarrow> map_of (sensorPart p bd) k = map_of bd k"
proof -
  assume k: "k \<notin> snd ` set sensorMappings"
  have "List.find (\<lambda>m. snd m = k \<and> defined (sensorCurve p (fst m))) sensorMappings = None"
    using k by (force simp: find_None_iff)
  then show ?thesis
    by (simp add: sensorPart_def map_of_sensor_fold [OF distinct_sensor_outputs])
qed

lemma patternPart_other:
  "patternPart E p bd = Inr bd' \<Longrightarrow> k \<noteq> ''patternScale'' \<Longrightarrow> k \<noteq> ''patternStrength'' \<Longrightarrow>
   map_of bd' k = map_of bd k"
  by (auto simp: patternPart_def Let_def map_of_putDefined update_conv'
      split: if_splits sum.splits)

lemma patternPart_Inl:
  "patternPart E p bd = Inl e \<longleftrightarrow>
     truthy (pget p ''Texture/Pattern/Pattern'') \<and>
     defined (pget p ''Texture/Pattern/Strength'') \<and>
     parseFloat E (pget p ''Texture/Pattern/Strength'') = Inl e"
  by (auto simp: patternPart_def Let_def split: if_splits sum.splits)

lemma definitionPart_none:
  "pget p ''brush_definition'' = JUndefined \<or>
   (\<exists>e. xmlParse E (pget p ''brush_definition'') = Inl e) \<or>
   (\<exists>parsed. xmlParse E (pget p ''brush_definition'') = Inr parsed \<and>
      \<not> truthy (get parsed ''Brush'')) \<Longrightarrow>
   definitionPart E p bd = bd"
  by (auto simp: definitionPart_def parseBrushDefinition_def getProp_def)

lemma shape_not_sensor: "k \<in> set shapeKeys \<Longrightarrow> k \<notin> snd ` set sensorMappings"
  by (auto simp: shapeKeys_def sensorMappings_def)

lemma shape_not_dynamic:
  "k \<in> set shapeKeys \<Longrightarrow> k \<noteq> ''flow'' \<and> k \<noteq> ''scatter'' \<and> k \<noteq> ''opacity'' \<and>
     k \<noteq> ''patternScale'' \<and> k \<noteq> ''patternStrength''"
  by (auto simp: shapeKeys_def)

lemma sensorPart_curve:
  assumes "(pk, ok) \<in> set sensorMappings" and "defined (sensorCurve p pk)"
  shows "map_of (sensorPart p bd) ok = Some (sensorCurve p pk)"
proof -
  let ?P = "\<lambda>m. snd m = ok \<and> defined (sensorCurve p (fst m))"
  from assms have "\<exists>m \<in> set sensorMappings. ?P m" by force
  then obtain m where f: "List.find ?P sensorMappings = Some m"
    by (cases "List.find ?P sensorMappings") (auto simp: find_None_iff)
  then have "m \<in> set sensorMappings" "snd m = ok"
    by (auto simp: find_Some_iff)
  with assms(1) distinct_sensor_outputs have "fst m = pk"
    by (metis eq_key_imp_eq_value map_of_eq_Some_iff prod.collapse distinct_map
        inj_on_def snd_conv fst_conv)
  with f show ?thesis
    by (simp add: sensorPart_def map_of_sensor_fold [OF distinct_sensor_outputs])
qed

subsection \<open>The descriptor\<close>

lemma defined_lor_null: "defined (lor v JNull) = truthy v"
  by (cases v) (auto simp: lor_def defined_def)

lemma truthy_lor_null: "truthy (lor v JNull) = truthy v"
  by (simp add: lor_def)

lemma lor_null_truthy: "truthy v \<Longrightarrow> lor v JNull = v"
  by (simp add: lor_def)

lemma lor_null_undefined: "lor JUndefined JNull = JNull"
  by (simp add: lor_def)

text \<open>The descriptor of a truthy root, field by field.\<close>

lemma parseBrushDefinition_root:
  assumes "xmlParse E x = Inr parsed" and "truthy (get parsed ''Brush'')"
  shows "parseBrushDefinition E x =
     (let brush = get parsed ''Brush''; result = map (orNull brush) brushFields in
      if truthy (get brush ''MaskGenerator'') then
        JObj (result @
          [(''maskGenerator'', JObj (map (orNull (get brush ''MaskGenerator'')) maskFields))])
      else JObj result)"
proof -
  from assms(2) have "defined parsed" by (cases parsed) (simp_all add: defined_def)
  with assms show ?thesis
    by (simp add: parseBrushDefinition_def getProp_def Let_def)
qed

lemma desc_field:
  assumes "xmlParse E x = Inr parsed" and "truthy (get parsed ''Brush'')"
    and "f \<in> set brushFields"
  shows "get (parseBrushDefinition E x) f = lor (get (get parsed ''Brush'') f) JNull"
  using assms(3)
  by (auto simp: parseBrushDefinition_root [OF assms(1,2)] Let_def brushFields_def orNull_def)

lemma desc_mask:
  assumes "xmlParse E x = Inr parsed" and "truthy (get parsed ''Brush'')"
  shows "get (parseBrushDefinition E x) ''maskGenerator'' =
     (if truthy (get (get parsed ''Brush'') ''MaskGenerator'')
      then JObj (map (orNull (get (get parsed ''Brush'') ''MaskGenerator'')) maskFields)
      else JUndefined)"
  by (simp add: parseBrushDefinition_root [OF assms(1,2)] Let_def brushFields_def orNull_def)

lemma desc_truthy:
  assumes "xmlParse E x = Inr parsed" and "truthy (get parsed ''Brush'')"
  shows "truthy (parseBrushDefinition E x)"
  by (simp add: parseBrushDefinition_root [OF assms(1,2)] Let_def)

lemma mask_field:
  "f \<in> set maskFields \<Longrightarrow> get (JObj (map (orNull mg) maskFields)) f = lor (get mg f) JNull"
  by (auto simp: maskFields_def orNull_def)

lemma map_of_maskPart:
  "map_of (maskPart d bd) k =
     (let mg = get d ''maskGenerator'' in
      if truthy mg \<and> k = ''spikes'' \<and> defined (get mg ''spikes'') then Some (get mg ''spikes'')
      else if truthy mg \<and> k = ''vfade'' \<and> defined (get mg ''vfade'') then Some (get mg ''vfade'')
      else if truthy mg \<and> k = ''hfade'' \<and> defined (get mg ''hfade'') then Some (get mg ''hfade'')
      else if truthy mg \<and> k = ''roundness'' \<and> defined (get mg ''ratio'') then Some (get mg ''ratio'')
      else if truthy mg \<and> k = ''size'' \<and> defined (get mg ''diameter'') then Some (get mg ''diameter'')
      else map_of bd k)"
  by (simp add: maskPart_def Let_def map_of_putDefined)

lemma map_of_shapePart_field:
  "map_of (shapePart d bd) k =
     (let r = map_of (maskPart d []) k in
      if r \<noteq> None then r
      else if k = ''type'' \<and> truthy (get d ''type'') then Some (get d ''type'')
      else if k = ''filename'' \<and> truthy (get d ''filename'') then Some (get d ''filename'')
      else if k = ''density'' \<and> defined (get d ''density'') then Some (get d ''density'')
      else if k = ''randomness'' \<and> defined (get d ''randomness'') then Some (get d ''randomness'')
      else if k = ''scale'' \<and> defined (get d ''scale'') then Some (get d ''scale'')
      else if k = ''angle'' \<and> defined (get d ''angle'') then Some (get d ''angle'')
      else if k = ''spacing'' \<and> defined (get d ''spacing'') then Some (get d ''spacing'')
      else map_of bd k)"
  by (simp add: shapePart_def Let_def map_of_maskPart map_of_putDefined map_of_putTruthy)

lemma shapePart_other: "k \<notin> set shapeKeys \<Longrightarrow> map_of (shapePart d bd) k = map_of bd k"
  by (simp add: map_of_shapePart_field map_of_maskPart Let_def shapeKeys_def)

lemma definitionPart_other:
  "k \<notin> set shapeKeys \<Longrightarrow> map_of (definitionPart E p bd) k = map_of bd k"
  by (simp add: definitionPart_def Let_def shapePart_other)

subsection \<open>The brush output as a whole\<close>

lemma dynamicPart_other:
  "k \<noteq> ''flow'' \<Longrightarrow> k \<noteq> ''scatter'' \<Longrightarrow> k \<noteq> ''opacity'' \<Longrightarrow>
   map_of (dynamicPart p bd) k = map_of bd k"
  by (simp add: map_of_dynamicPart)

lemma extract_shape:
  assumes "extractBrushParameters E p = Inr bd" and "k \<in> set shapeKeys"
  shows "map_of bd k = map_of (definitionPart E p []) k"
proof -
  note n = shape_not_dynamic [OF assms(2)]
  from assms(1) have "map_of bd k =
      map_of (sensorPart p (dynamicPart p (definitionPart E p []))) k"
    unfolding extractBrushParameters_def using n by (simp add: patternPart_other)
  also have "\<dots> = map_of (dynamicPart p (definitionPart E p [])) k"
    by (rule sensorPart_other) (rule shape_not_sensor [OF assms(2)])
  also have "\<dots> = map_of (definitionPart E p []) k"
    using n by (simp add: dynamicPart_other)
  finally show ?thesis .
qed

lemma extract_dynamic:
  assumes "extractBrushParameters E p = Inr bd"
    and "k = ''flow'' \<or> k = ''scatter'' \<or> k = ''opacity''"
  shows "map_of bd k = map_of (dynamicPart p []) k"
proof -
  from assms(2) have n: "k \<noteq> ''patternScale''" "k \<noteq> ''patternStrength''"
    "k \<notin> snd ` set sensorMappings" "k \<notin> set shapeKeys"
    by (auto simp: sensorMappings_def shapeKeys_def)
  from assms(1) have "map_of bd k =
      map_of (sensorPart p (dynamicPart p (definitionPart E p []))) k"
    unfolding extractBrushParameters_def by (rule patternPart_other) (rule n)+
  also have "\<dots> = map_of (dynamicPart p (definitionPart E p [])) k"
    by (rule sensorPart_other) (rule n)
  also have "\<dots> = map_of (dynamicPart p []) k"
    using n(4) assms(2) by (auto simp: map_of_dynamicPart definitionPart_other)
  finally show ?thesis .
qed

lemma extract_sensor:
  assumes "extractBrushParameters E p = Inr bd"
    and "(pk, ok) \<in> set sensorMappings" and "defined (sensorCurve p pk)"
  shows "map_of bd ok = Some (sensorCurve p pk)"
proof -
  from assms(2) have n: "ok \<noteq> ''patternScale''" "ok \<noteq> ''patternStrength''"
    by (auto simp: sensorMappings_def)
  from assms(1) have "map_of bd ok =
      map_of (sensorPart p (dynamicPart p (definitionPart E p []))) ok"
    unfolding extractBrushParameters_def by (rule patternPart_other) (rule n)+
  also have "\<dots> = Some (sensorCurve p pk)"
    by (rule sensorPart_curve [OF assms(2,3)])
  finally show ?thesis .
qed

lemma extract_Inl:
  "extractBrushParameters E p = Inl e \<longleftrightarrow>
     truthy (pget p ''Texture/Pattern/Pattern'') \<and>
     defined (pget p ''Texture/Pattern/Strength'') \<and>
     parseFloat E (pget p ''Texture/Pattern/Strength'') = Inl e"
  by (simp add: extractBrushParameters_def patternPart_Inl)

lemma pattern_keys_before:
  assumes "k = ''patternScale'' \<or> k = ''patternStrength''"
  shows "map_of (sensorPart p (dynamicPart p (definitionPart E p []))) k = None"
proof -
  from assms have n: "k \<notin> snd ` set sensorMappings" "k \<notin> set shapeKeys"
    by (auto simp: sensorMappings_def shapeKeys_def)
  from assms have m: "k \<noteq> ''flow''" "k \<noteq> ''scatter''" "k \<noteq> ''opacity''"
    by auto
  have "map_of (sensorPart p (dynamicPart p (definitionPart E p []))) k =
      map_of (dynamicPart p (definitionPart E p [])) k"
    using n(1) by (rule sensorPart_other)
  also have "\<dots> = map_of (definitionPart E p []) k"
    using m by (rule dynamicPart_other)
  also have "\<dots> = None"
    using n(2) by (simp add: definitionPart_other)
  finally show ?thesis .
qed

lemma patternPart_scale_eq:
  "patternPart E p bd = Inr bd' \<Longrightarrow>
   map_of bd' ''patternScale'' =
     (if truthy (pget p ''Texture/Pattern/Pattern'') \<and> defined (pget p ''Texture/Pattern/Scale'')
      then Some (pget p ''Texture/Pattern/Scale'') else map_of bd ''patternScale'')"
  by (auto simp: patternPart_def Let_def map_of_putDefined update_conv'
      split: if_splits sum.splits)

lemma patternPart_strength_eq:
  "patternPart E p bd = Inr bd' \<Longrightarrow>
     (if truthy (pget p ''Texture/Pattern/Pattern'') \<and>
         defined (pget p ''Texture/Pattern/Strength'')
      then \<exists>n. parseFloat E (pget p ''Texture/Pattern/Strength'') = Inr n \<and>
             map_of bd' ''patternStrength'' = Some (JNum n)
      else map_of bd' ''patternStrength'' = map_of bd ''patternStrength'')"
  by (auto simp: patternPart_def Let_def map_of_putDefined update_conv'
      split: if_splits sum.splits)

subsection \<open>Unfolding the model on the examples\<close>

lemmas extract_defs =
  extractBrushParameters_def patternPart_def sensorPart_def sensorStep_def
  sensorMappings_def dynamicPart_def definitionPart_def parseBrushDefinition_def
  shapePart_def maskPart_def putDefined_def putTruthy_def defined_def Let_def pget_def
  parseFloat_def getProp_def lor_def orNull_def brushFields_def maskFields_def

lemma exampleBase64_zeros: "exampleBase64 ''AAAA'' = [0, 0, 0]"
  by (simp add: exampleBase64_def sextet_def)

lemmas example_defs = exampleBase64_zeros
  exampleEnv_def exampleParse_def exampleTrees_def exampleNumToString_def exampleLitToNum_def

lemmas literal_defs =
  decimalPrefix_def unsignedPrefix_def trimStart_def isWhite_def isDigit_def

subsection \<open>The data URI header\<close>

lemma strip_header:
  assumes "sub \<noteq> []" and "list_all isWordChar sub"
  shows "stripDataUri (dataUriHeader sub @ b) = b"
proof -
  have semi: "\<not> isWordChar CHR '';''" by (simp add: isWordChar_def)
  from assms(2) have w: "\<And>c. c \<in> set sub \<Longrightarrow> isWordChar c"
    by (simp add: list_all_iff)
  have tw: "takeWhile isWordChar (sub @ '';base64,'' @ b) = sub"
    using w semi by (simp add: takeWhile_append2)
  have dw: "dropWhile isWordChar (sub @ '';base64,'' @ b) = '';base64,'' @ b"
    using w semi by (simp add: dropWhile_append2)
  show ?thesis
    using assms(1) tw dw by (simp add: stripDataUri_def dataUriHeader_def)
qed

lemma strip_bare:
  assumes "list_all isBase64Char b"
  shows "stripDataUri b = b"
proof (cases "take 11 b = ''data:image/''")
  case True
  have "b = take 11 b @ drop 11 b" by simp
  with True have "b = ''data:image/'' @ drop 11 b" by simp
  then have "set b = set (''data:image/'' @ drop 11 b)"
    by (rule arg_cong)
  then have "CHR '':'' \<in> set b" by simp
  with assms have "isBase64Char CHR '':''" by (simp add: list_all_iff)
  then show ?thesis by (simp add: isBase64Char_def)
next
  case False
  then show ?thesis by (simp add: stripDataUri_def)
qed

subsection \<open>The param loop\<close>

lemma toSeq_single: "\<not> isArray x \<Longrightarrow> toSeq x = [x]"
  by (cases x) simp_all

lemma falsy_has_no_name: "\<not> truthy x \<Longrightarrow> get x k = JUndefined"
  by (cases x) simp_all

lemma flattenStep_falsy_name:
  "defined q \<Longrightarrow> \<not> truthy (get q ''name'') \<Longrightarrow> flattenStep E acc q = Inr acc"
  by (simp add: flattenStep_def getProp_def)

lemma flattenParams_append:
  "flattenParams E (ps @ qs) acc =
     (case flattenParams E ps acc of Inl e \<Rightarrow> Inl e | Inr acc' \<Rightarrow> flattenParams E qs acc')"
  by (induction ps arbitrary: acc) (auto split: sum.splits)

lemma map_of_insertKey:
  "map_of al k = None \<Longrightarrow>
   map_of (insertKey k v al) k' = (if k' = k then Some v else map_of al k')"
  by (induction al) (auto split: if_splits)

lemma map_of_setOwn:
  "map_of (setOwn k v al) k' = (if k' = k then Some v else map_of al k')"
  by (simp add: setOwn_def map_of_insertKey update_conv')

lemma own_setParam:
  "k \<noteq> ''__proto__'' \<Longrightarrow>
   map_of (own (setParam p k' v)) k = (if k' = k then Some v else map_of (own p) k)"
  by (auto simp: setParam_def map_of_setOwn)

lemma flattenStep_lookup:
  assumes "flattenStep E acc q = Inr acc'" and "k \<noteq> ''__proto__''"
  shows "map_of (own acc') k =
     (if keyOf E q = Some k then Some (paramValue q) else map_of (own acc) k)"
  using assms
  by (auto simp: flattenStep_def getProp_def keyOf_def own_setParam
      split: if_splits sum.splits)

lemma find_snoc:
  "List.find P (xs @ [x]) =
     (case List.find P xs of Some y \<Rightarrow> Some y | None \<Rightarrow> if P x then Some x else None)"
  by (induction xs) auto

lemma flatten_lookup:
  assumes "flattenParams E ps acc = Inr r" and "k \<noteq> ''__proto__''"
  shows "map_of (own r) k =
     (case lastNamed E k ps of Some q \<Rightarrow> Some (paramValue q) | None \<Rightarrow> map_of (own acc) k)"
  using assms(1)
proof (induction ps arbitrary: acc)
  case Nil
  then show ?case by (simp add: lastNamed_def)
next
  case (Cons q ps)
  from Cons.prems obtain acc' where
    st: "flattenStep E acc q = Inr acc'" and rest: "flattenParams E ps acc' = Inr r"
    by (auto split: sum.splits)
  have "map_of (own r) k =
     (case lastNamed E k ps of Some q \<Rightarrow> Some (paramValue q) | None \<Rightarrow> map_of (own acc') k)"
    by (rule Cons.IH [OF rest])
  then show ?case
    by (simp add: lastNamed_def find_snoc flattenStep_lookup [OF st assms(2)]
        split: option.splits)
qed

text \<open>What the decoder stores: under every key but \<^verbatim>\<open>__proto__\<close>, what line 269 makes
  of the last entry whose truthy name converts to that key, and no property when there is
  no such entry. Line 269 gives the first non-absent field whenever no field is present
  with a falsy value.\<close>

lemma last_entry_wins:
  assumes "decodePreset E jsonObj = Inr t" and "k \<noteq> ''__proto__''"
  shows "map_of (own (parameters t)) k =
     map_option paramValue
       (lastNamed E k (toSeq (get (get jsonObj ''Preset'') ''param'')))"
proof -
  let ?preset = "get jsonObj ''Preset''"
  let ?ps = "toSeq (get ?preset ''param'')"
  from assms(1) have dj: "defined jsonObj"
    by (auto simp: decodePreset_def getProp_def split: if_splits)
  show ?thesis
  proof (cases "truthy (optGet ?preset ''param'')")
    case True
    then have tp: "optGet ?preset ''param'' = get ?preset ''param''"
      by (auto simp: optGet_def split: if_splits)
    from assms(1) dj True have fl: "flattenParams E ?ps emptyObj = Inr (parameters t)"
      by (auto simp: decodePreset_def getProp_def split: sum.splits)
    from flatten_lookup [OF fl assms(2)] show ?thesis
      by (simp add: emptyObj_def split: option.splits)
  next
    case False
    from assms(1) dj False have e: "parameters t = emptyObj"
      by (auto simp: decodePreset_def getProp_def split: sum.splits)
    from False have nt: "\<not> truthy (get ?preset ''param'')"
      by (cases "defined ?preset") (auto simp: optGet_def defined_def)
    have "keyOf E q = None" if "q \<in> set ?ps" for q
    proof (cases "isArray (get ?preset ''param'')")
      case True
      with nt show ?thesis by (cases "get ?preset ''param''") simp_all
    next
      case False
      with that have "q = get ?preset ''param''" by (simp add: toSeq_single)
      with nt show ?thesis by (simp add: keyOf_def falsy_has_no_name)
    qed
    then have "lastNamed E k ?ps = None"
      by (simp add: lastNamed_def find_None_iff)
    with e show ?thesis by (simp add: emptyObj_def)
  qed
qed


lemma paramValue_spec:
  assumes "get q ''value'' = JUndefined \<or> truthy (get q ''value'')"
    and "get q ''text'' = JUndefined \<or> truthy (get q ''text'')"
    and "get q ''cdata'' = JUndefined \<or> truthy (get q ''cdata'')"
  shows "paramValue q = specParamValue q"
  using assms by (auto simp: paramValue_def specParamValue_def lor_def)

lemmas decode_defs =
  decodePreset_def flattenStep_def getProp_def optGet_def defined_def lor_def paramValue_def
  setParam_def shadowsProto_def isObject_def emptyObj_def setOwn_def isArrayIndex_def
  decimalValue_def isDigit_def

subsection \<open>The main loop\<close>

lemma extract_empty: "extractBrushParameters E emptyObj = Inr []"
  by (simp add: extract_defs emptyObj_def)

lemma patternStep_empty: "patternStep E baseName emptyObj bd = (bd, [])"
  by (simp add: patternStep_def pget_def emptyObj_def)

lemma decodePreset_missing:
  assumes "defined jsonObj"
    and "get jsonObj ''Preset'' = JUndefined \<or> get (get jsonObj ''Preset'') ''param'' = JUndefined"
  shows "decodePreset E jsonObj =
     Inr \<lparr>name = lor (get (get jsonObj ''Preset'') ''name'') (JStr []),
          paintopid = lor (get (get jsonObj ''Preset'') ''paintopid'') (JStr []),
          parameters = emptyObj\<rparr>"
  using assms by (auto simp: decodePreset_def getProp_def optGet_def defined_def)




subsection \<open>Descriptor fields in the brush output\<close>

lemma brush_field_shape: "f \<in> set brushFields \<Longrightarrow> f \<in> set shapeKeys"
  by (auto simp: brushFields_def shapeKeys_def)

lemma mask_output_shape: "(f, k) \<in> set maskOutputs \<Longrightarrow> k \<in> set shapeKeys \<and> f \<in> set maskFields"
  by (auto simp: maskOutputs_def shapeKeys_def maskFields_def)

lemma shapePart_brush_fields:
  "\<forall>f\<in>set brushFields. map_of (shapePart d []) f =
     (if (if f = ''type'' \<or> f = ''filename'' then truthy (get d f) else defined (get d f))
      then Some (get d f) else None)"
  by (simp add: brushFields_def map_of_shapePart_field map_of_maskPart Let_def)

lemma shapePart_mask_outputs:
  "\<forall>(f, k)\<in>set maskOutputs. map_of (shapePart d []) k =
     (if truthy (get d ''maskGenerator'') \<and> defined (get (get d ''maskGenerator'') f)
      then Some (get (get d ''maskGenerator'') f) else None)"
  by (simp add: maskOutputs_def map_of_shapePart_field map_of_maskPart Let_def)

lemma definitionPart_root:
  assumes "truthy (pget p ''brush_definition'')"
    and "xmlParse E (pget p ''brush_definition'') = Inr parsed"
    and "truthy (get parsed ''Brush'')"
  shows "definitionPart E p bd = shapePart (parseBrushDefinition E (pget p ''brush_definition'')) bd"
  using assms(1) desc_truthy [OF assms(2,3)] by (simp add: definitionPart_def)

lemmas loop_defs =
  processFile_def patternStep_def savePatternBitmap_def decodePattern_def stripDataUri_def
  isWordChar_def transformedJson_def brushJson_def

lemma decodePreset_defined:
  "defined jsonObj \<Longrightarrow>
   decodePreset E jsonObj =
     (case (if truthy (optGet (get jsonObj ''Preset'') ''param'')
            then flattenParams E (toSeq (get (get jsonObj ''Preset'') ''param'')) emptyObj
            else Inr emptyObj) of
        Inl e \<Rightarrow> Inl e
      | Inr ps \<Rightarrow>
          Inr \<lparr>name = lor (optGet (get jsonObj ''Preset'') ''name'') (JStr []),
               paintopid = lor (optGet (get jsonObj ''Preset'') ''paintopid'') (JStr []),
               parameters = ps\<rparr>)"
  by (simp add: decodePreset_def getProp_def)

lemma duplicatePreset_decoded:
  "decodePreset exampleEnv duplicatePreset =
     Inr \<lparr>name = JStr ''Ink'', paintopid = JStr [],
          parameters = \<lparr>own = [(''7'', JStr ''c''), (''x'', JStr ''t'')], proto = None\<rparr>\<rparr>"
  by (simp add: decode_defs duplicatePreset_def exampleEnv_def exampleNumToString_def)

section \<open>The claims\<close>

text \<open>
  Claim C1: the code against the claim. The claim takes a parameter's value as the first
  non-absent of the value, text and CDATA fields. Line 269 chains the fields with \<^verbatim>\<open>||\<close>,
  which passes over a field that is present with the value zero: the entry
  \<^verbatim>\<open>name="OpacityValue" value="0"\<close> is stored as the empty string where the claim gives
  the number zero, and the brush output then carries the opacity \<^verbatim>\<open>""\<close>, through the test
  of lines 143-147 that was written to let a zero through.
\<close>

theorem zero_value_not_kept:
  "decodePreset exampleEnv zeroValuePreset =
     Inr \<lparr>name = JStr [], paintopid = JStr [],
          parameters = \<lparr>own = [(''OpacityValue'', JStr [])], proto = None\<rparr>\<rparr> \<and>
   specParamValue zeroValueEntry = JNum (Fin 0) \<and>
   extractBrushParameters exampleEnv \<lparr>own = [(''OpacityValue'', JStr [])], proto = None\<rparr> =
     Inr [(''opacity'', JStr [])]"
  by (simp add: decode_defs extract_defs zeroValuePreset_def zeroValueEntry_def
      specParamValue_def)

text \<open>
  Claim C2, as the code has it. The claim has every present descriptor and
  mask-generator field carried into the brush output, a zero included. The descriptor is
  built with \<^verbatim>\<open>brush.f || null\<close> (lines 47-64), so a spacing of zero becomes \<^verbatim>\<open>null\<close> and is
  left out; and the mask generator's \<^verbatim>\<open>type\<close> is stored in the descriptor but no line of
  \<^verbatim>\<open>extractBrushParameters\<close> projects it.
\<close>

theorem zero_spacing_and_mask_type_dropped:
  "xmlParse exampleEnv (pget zeroSpacingParams ''brush_definition'') =
     Inr (JObj [(''Brush'',
       JObj [(''spacing'', JNum (Fin 0)),
             (''MaskGenerator'', JObj [(''type'', JStr ''circle'')])])]) \<and>
   parseBrushDefinition exampleEnv (pget zeroSpacingParams ''brush_definition'') =
     JObj [(''type'', JNull), (''spacing'', JNull), (''angle'', JNull), (''scale'', JNull),
           (''randomness'', JNull), (''density'', JNull), (''filename'', JNull),
           (''maskGenerator'',
            JObj [(''type'', JStr ''circle''), (''diameter'', JNull), (''ratio'', JNull),
                  (''hfade'', JNull), (''vfade'', JNull), (''spikes'', JNull)])] \<and>
   extractBrushParameters exampleEnv zeroSpacingParams = Inr []"
  by (simp add: extract_defs example_defs zeroSpacingParams_def)

text \<open>
  Claim C2, amended: for a brush definition that parses to a tree with a truthy \<^verbatim>\<open>Brush\<close>
  root, every descriptor field with a truthy source value is in the descriptor and in the
  brush output with that value; every mask-generator field among diameter, ratio, hfade,
  vfade and spikes with a truthy source value is in the descriptor and in the brush
  output (diameter as \<^verbatim>\<open>size\<close>, ratio as \<^verbatim>\<open>roundness\<close>); the mask generator's type is in the
  descriptor; and a field absent in the source is left out of the brush output. Nothing
  is said of a field that is present with a falsy value.
\<close>

theorem truthy_descriptor_fields_carried:
  fixes E :: env and p :: pobj and parsed :: jsval and bd :: brush
    and brushEl maskEl descriptor :: jsval
  defines "brushEl \<equiv> get parsed ''Brush''"
    and "maskEl \<equiv> get (get parsed ''Brush'') ''MaskGenerator''"
    and "descriptor \<equiv> parseBrushDefinition E (pget p ''brush_definition'')"
  assumes present: "truthy (pget p ''brush_definition'')"
    and parses: "xmlParse E (pget p ''brush_definition'') = Inr parsed"
    and rooted: "truthy (get parsed ''Brush'')"
    and returns: "extractBrushParameters E p = Inr bd"
  shows "(\<forall>f\<in>set brushFields.
            (truthy (get brushEl f) \<longrightarrow>
               get descriptor f = get brushEl f \<and> map_of bd f = Some (get brushEl f)) \<and>
            (get brushEl f = JUndefined \<longrightarrow>
               get descriptor f = JNull \<and> map_of bd f = None)) \<and>
         (\<forall>(f, k)\<in>set maskOutputs.
            (truthy (get maskEl f) \<longrightarrow>
               get (get descriptor ''maskGenerator'') f = get maskEl f \<and>
               map_of bd k = Some (get maskEl f)) \<and>
            (get maskEl f = JUndefined \<longrightarrow> map_of bd k = None)) \<and>
         (truthy (get maskEl ''type'') \<longrightarrow>
            get (get descriptor ''maskGenerator'') ''type'' = get maskEl ''type'')"
proof -
  let ?x = "pget p ''brush_definition''"
  let ?brush = "get parsed ''Brush''"
  let ?mg = "get ?brush ''MaskGenerator''"
  let ?d = "parseBrushDefinition E ?x"
  note root = parses rooted
  have dp: "definitionPart E p [] = shapePart ?d []"
    by (rule definitionPart_root [OF present root])
  have out: "map_of bd k = map_of (shapePart ?d []) k" if "k \<in> set shapeKeys" for k
    using extract_shape [OF returns that] by (simp add: dp)
  have fields: "(truthy (get ?brush f) \<longrightarrow>
        get ?d f = get ?brush f \<and> map_of bd f = Some (get ?brush f)) \<and>
      (get ?brush f = JUndefined \<longrightarrow> get ?d f = JNull \<and> map_of bd f = None)"
    if f: "f \<in> set brushFields" for f
  proof -
    have df: "get ?d f = lor (get ?brush f) JNull"
      by (rule desc_field [OF root f])
    have "map_of bd f = map_of (shapePart ?d []) f"
      by (rule out) (rule brush_field_shape [OF f])
    also have "\<dots> = (if truthy (get ?brush f) then Some (get ?brush f) else None)"
      using bspec [OF shapePart_brush_fields f, of ?d]
      by (simp add: df defined_lor_null truthy_lor_null lor_null_truthy)
    finally show ?thesis
      by (simp add: df lor_null_truthy lor_null_undefined)
  qed
  have mgt: "truthy ?mg" if "truthy (get ?mg f)" for f
    using that by (auto dest: truthy_defined get_defined_truthy)
  have dm: "get (get ?d ''maskGenerator'') f = lor (get ?mg f) JNull"
    if "truthy ?mg" and "f \<in> set maskFields" for f
  proof -
    from that(1) have "get ?d ''maskGenerator'' = JObj (map (orNull ?mg) maskFields)"
      by (simp add: desc_mask [OF root])
    then show ?thesis by (simp only: mask_field [OF that(2)])
  qed
  have masks: "(truthy (get ?mg f) \<longrightarrow>
        get (get ?d ''maskGenerator'') f = get ?mg f \<and> map_of bd k = Some (get ?mg f)) \<and>
      (get ?mg f = JUndefined \<longrightarrow> map_of bd k = None)"
    if fk: "(f, k) \<in> set maskOutputs" for f k
  proof -
    from mask_output_shape [OF fk] have k: "k \<in> set shapeKeys" and f: "f \<in> set maskFields"
      by simp_all
    have "map_of bd k = map_of (shapePart ?d []) k" by (rule out [OF k])
    with bspec [OF shapePart_mask_outputs fk, of ?d]
    have o: "map_of bd k =
      (if truthy (get ?d ''maskGenerator'') \<and> defined (get (get ?d ''maskGenerator'') f)
       then Some (get (get ?d ''maskGenerator'') f) else None)" by simp
    show ?thesis
    proof (cases "truthy ?mg")
      case True
      then have tm: "truthy (get ?d ''maskGenerator'')"
        by (simp add: desc_mask [OF root])
      have o': "map_of bd k = (if truthy (get ?mg f) then Some (get ?mg f) else None)"
        unfolding o dm [OF True f]
        by (simp add: tm defined_lor_null lor_null_truthy)
      have "get ?mg f = JUndefined \<Longrightarrow> \<not> truthy (get ?mg f)" by simp
      then show ?thesis
        unfolding o' dm [OF True f] by (auto simp: lor_null_truthy)
    next
      case False
      then have "\<not> truthy (get ?mg f)" using mgt by blast
      have "\<not> truthy (get ?d ''maskGenerator'')"
        using False by (simp add: desc_mask [OF root])
      with \<open>\<not> truthy (get ?mg f)\<close> show ?thesis
        unfolding o by simp
    qed
  qed
  have mtype: "truthy (get ?mg ''type'') \<longrightarrow>
      get (get ?d ''maskGenerator'') ''type'' = get ?mg ''type''"
  proof
    assume t: "truthy (get ?mg ''type'')"
    have "''type'' \<in> set maskFields" by (simp add: maskFields_def)
    from dm [OF mgt [OF t] this] t show "get (get ?d ''maskGenerator'') ''type'' = get ?mg ''type''"
      by (simp add: lor_null_truthy)
  qed
  from fields masks mtype show ?thesis
    unfolding brushEl_def maskEl_def descriptor_def by blast
qed

theorem truthy_descriptor_fields_carried_witness:
  "truthy (pget autoBrushParams ''brush_definition'') \<and>
   (\<exists>bd. extractBrushParameters exampleEnv autoBrushParams = Inr bd \<and>
      map_of bd ''type'' = Some (JStr ''auto'') \<and>
      map_of bd ''spacing'' = Some (JNum (Fin (1 / 10))) \<and>
      map_of bd ''size'' = Some (JNum (Fin 50)) \<and>
      map_of bd ''roundness'' = Some (JNum (Fin 1)) \<and>
      map_of bd ''angle'' = None \<and> map_of bd ''hfade'' = None)"
proof -
  let ?tree = "JObj [(''Brush'',
         JObj [(''type'', JStr ''auto''), (''spacing'', JNum (Fin (1 / 10))),
               (''MaskGenerator'',
                JObj [(''type'', JStr ''circle''), (''diameter'', JNum (Fin 50)),
                      (''ratio'', JNum (Fin 1))])])]"
  let ?bd = "[(''spacing'', JNum (Fin (1 / 10))), (''type'', JStr ''auto''),
      (''size'', JNum (Fin 50)), (''roundness'', JNum (Fin 1))]"
  have h1: "truthy (pget autoBrushParams ''brush_definition'')"
    by (simp add: autoBrushParams_def pget_def)
  have h2: "xmlParse exampleEnv (pget autoBrushParams ''brush_definition'') = Inr ?tree"
    by (simp add: autoBrushParams_def pget_def example_defs)
  have h3: "truthy (get ?tree ''Brush'')" by simp
  have h4: "extractBrushParameters exampleEnv autoBrushParams = Inr ?bd"
    by (simp add: extract_defs example_defs autoBrushParams_def)
  from truthy_descriptor_fields_carried [OF h1 h2 h3 h4]
  have "map_of ?bd ''type'' = Some (JStr ''auto'') \<and>
      map_of ?bd ''spacing'' = Some (JNum (Fin (1 / 10))) \<and>
      map_of ?bd ''size'' = Some (JNum (Fin 50)) \<and>
      map_of ?bd ''roundness'' = Some (JNum (Fin 1)) \<and>
      map_of ?bd ''angle'' = None \<and> map_of ?bd ''hfade'' = None"
    by (simp add: brushFields_def maskOutputs_def)
  with h1 h4 show ?thesis by blast
qed

text \<open>
  Claim C3, as the code has it. The claim has the decoder abort a file whose markup
  lacks the \<^verbatim>\<open>Preset\<close> root or its param list. The code reads the root with optional
  chaining and defaults (lines 255-261): such a file is processed to the end, with empty
  name, identifier and parameters, and its three files are written.
\<close>

theorem missing_root_still_written:
  "xmlParse exampleEnv (get (get rootlessTags ''preset'') ''value'') =
     Inr (JObj [(''Settings'', JStr [])]) \<and>
   get (JObj [(''Settings'', JStr [])]) ''Preset'' = JUndefined \<and>
   processFile exampleEnv ''foo'' rootlessTags =
     ([((XmlDir, ''foo.xml''), RawData (JStr ''<Settings></Settings>'')),
       ((JsonDir, ''foo.json''),
        JsonText (JObj [(''name'', JStr []), (''paintopid'', JStr []),
                        (''parameters'', JObj [])])),
       ((BrushesDir, ''foo_brush.json''),
        JsonText (JObj [(''name'', JStr []), (''paintopid'', JStr []), (''brush'', JObj [])]))],
      Completed)"
  by (simp add: loop_defs decode_defs extract_defs example_defs rootlessTags_def)

text \<open>
  Claim C3, amended: when the parsed markup lacks the \<^verbatim>\<open>Preset\<close> root or the param list
  under it, the decoder does not abort: it returns a result whose parameter object is
  empty and whose name and identifier are the root's fields when these are truthy and the
  empty string when the root or the field is absent; and, the writes succeeding, the
  turn completes with the markup, the parameter file and the brush file (an empty brush)
  written.
\<close>

theorem missing_root_or_params_not_an_abort:
  fixes E :: env and tags jsonObj presetEl :: jsval
  defines "presetEl \<equiv> get jsonObj ''Preset''"
  assumes tagged: "truthy (get tags ''preset'')"
    and valued: "truthy (get (get tags ''preset'') ''value'')"
    and parses: "xmlParse E (get (get tags ''preset'') ''value'') = Inr jsonObj"
    and object: "defined jsonObj"
    and missing: "get jsonObj ''Preset'' = JUndefined \<or>
                  get (get jsonObj ''Preset'') ''param'' = JUndefined"
    and writes: "\<And>f c. fsWrite E f c"
  shows "\<exists>t. decodePreset E jsonObj = Inr t \<and>
           parameters t = emptyObj \<and>
           (truthy (get presetEl ''name'') \<longrightarrow> name t = get presetEl ''name'') \<and>
           (get presetEl ''name'' = JUndefined \<longrightarrow> name t = JStr []) \<and>
           (truthy (get presetEl ''paintopid'') \<longrightarrow>
              paintopid t = get presetEl ''paintopid'') \<and>
           (get presetEl ''paintopid'' = JUndefined \<longrightarrow> paintopid t = JStr []) \<and>
           (presetEl = JUndefined \<longrightarrow> name t = JStr [] \<and> paintopid t = JStr []) \<and>
           processFile E baseName tags =
             ([((XmlDir, baseName @ ''.xml''), RawData (get (get tags ''preset'') ''value'')),
               ((JsonDir, baseName @ ''.json''), JsonText (transformedJson t)),
               ((BrushesDir, baseName @ ''_brush.json''), JsonText (brushJson t []))],
              Completed)"
proof -
  let ?t = "\<lparr>name = lor (get (get jsonObj ''Preset'') ''name'') (JStr []),
      paintopid = lor (get (get jsonObj ''Preset'') ''paintopid'') (JStr []),
      parameters = emptyObj\<rparr>"
  have d: "decodePreset E jsonObj = Inr ?t"
    by (rule decodePreset_missing [OF object missing])
  from tagged have "defined tags"
    by (blast dest: truthy_defined get_defined_truthy)
  with tagged valued parses writes have p: "processFile E baseName tags =
      ([((XmlDir, baseName @ ''.xml''), RawData (get (get tags ''preset'') ''value'')),
        ((JsonDir, baseName @ ''.json''), JsonText (transformedJson ?t)),
        ((BrushesDir, baseName @ ''_brush.json''), JsonText (brushJson ?t []))],
       Completed)"
    by (simp add: d processFile_def Let_def extract_empty patternStep_empty)
  have n: "(truthy (get presetEl ''name'') \<longrightarrow> name ?t = get presetEl ''name'') \<and>
      (get presetEl ''name'' = JUndefined \<longrightarrow> name ?t = JStr []) \<and>
      (truthy (get presetEl ''paintopid'') \<longrightarrow> paintopid ?t = get presetEl ''paintopid'') \<and>
      (get presetEl ''paintopid'' = JUndefined \<longrightarrow> paintopid ?t = JStr []) \<and>
      (presetEl = JUndefined \<longrightarrow> name ?t = JStr [] \<and> paintopid ?t = JStr [])"
    by (simp add: presetEl_def lor_def)
  have e: "parameters ?t = emptyObj" by simp
  from d e n p show ?thesis by blast
qed

theorem missing_root_or_params_not_an_abort_witness:
  "xmlParse exampleEnv (get (get paramlessTags ''preset'') ''value'') =
     Inr (JObj [(''Preset'', JObj [(''name'', JStr ''Ink'')])]) \<and>
   get (get (JObj [(''Preset'', JObj [(''name'', JStr ''Ink'')])]) ''Preset'') ''param'' =
     JUndefined \<and>
   (\<exists>t. processFile exampleEnv ''foo'' paramlessTags =
     ([((XmlDir, ''foo.xml''), RawData (JStr ''<Preset><name>Ink</name></Preset>'')),
       ((JsonDir, ''foo.json''), JsonText (transformedJson t)),
       ((BrushesDir, ''foo_brush.json''), JsonText (brushJson t []))],
      Completed) \<and>
      name t = JStr ''Ink'' \<and> paintopid t = JStr [] \<and> parameters t = emptyObj)"
proof -
  let ?tree = "JObj [(''Preset'', JObj [(''name'', JStr ''Ink'')])]"
  have h1: "truthy (get paramlessTags ''preset'')"
    and h2: "truthy (get (get paramlessTags ''preset'') ''value'')"
    and v: "get (get paramlessTags ''preset'') ''value'' = JStr ''<Preset><name>Ink</name></Preset>''"
    by (simp_all add: paramlessTags_def)
  have h3: "xmlParse exampleEnv (get (get paramlessTags ''preset'') ''value'') = Inr ?tree"
    by (simp add: v example_defs)
  have h4: "defined ?tree" by (simp add: defined_def)
  have h5: "get ?tree ''Preset'' = JUndefined \<or> get (get ?tree ''Preset'') ''param'' = JUndefined"
    by simp
  have h6: "\<And>f c. fsWrite exampleEnv f c" by (simp add: exampleEnv_def)
  from missing_root_or_params_not_an_abort [OF h1 h2 h3 h4 h5 h6, of "''foo''"] h3
  show ?thesis by (auto simp: v)
qed

text \<open>
  Claim C4, as the code has it. The claim says that \<^verbatim>\<open>patternScale\<close> and \<^verbatim>\<open>patternStrength\<close>
  are emitted whenever their own source parameter is present. In the code both
  assignments stand under \<^verbatim>\<open>if (parameters["Texture/Pattern/Pattern"])\<close> (line 179); a
  parameter object that holds only \<^verbatim>\<open>Texture/Pattern/Scale\<close> gives a brush output without
  \<^verbatim>\<open>patternScale\<close>.
\<close>

theorem pattern_scale_without_pattern:
  "pget scaleOnlyParams ''Texture/Pattern/Scale'' = JNum (Fin 2) \<and>
   extractBrushParameters exampleEnv scaleOnlyParams = Inr [] \<and>
   map_of ([] :: brush) ''patternScale'' = None"
  by (simp add: extract_defs scaleOnlyParams_def)

text \<open>
  Claim C4, amended: whenever the extraction returns a brush output, \<^verbatim>\<open>patternScale\<close> is
  in it exactly when \<^verbatim>\<open>Texture/Pattern/Pattern\<close> is truthy and \<^verbatim>\<open>Texture/Pattern/Scale\<close> is
  neither \<^verbatim>\<open>null\<close> nor \<^verbatim>\<open>undefined\<close>, and then it holds that value; \<^verbatim>\<open>patternStrength\<close> is
  in it exactly when \<^verbatim>\<open>Texture/Pattern/Pattern\<close> is truthy and \<^verbatim>\<open>Texture/Pattern/Strength\<close>
  is neither \<^verbatim>\<open>null\<close> nor \<^verbatim>\<open>undefined\<close>, and then it holds the number \<^verbatim>\<open>parseFloat\<close> makes
  of that value.
\<close>

theorem pattern_fields_gated:
  assumes "extractBrushParameters E p = Inr bd"
  shows "map_of bd ''patternScale'' =
           (if truthy (pget p ''Texture/Pattern/Pattern'') \<and>
               defined (pget p ''Texture/Pattern/Scale'')
            then Some (pget p ''Texture/Pattern/Scale'') else None) \<and>
         (if truthy (pget p ''Texture/Pattern/Pattern'') \<and>
             defined (pget p ''Texture/Pattern/Strength'')
          then \<exists>n. parseFloat E (pget p ''Texture/Pattern/Strength'') = Inr n \<and>
                 map_of bd ''patternStrength'' = Some (JNum n)
          else map_of bd ''patternStrength'' = None)"
proof -
  let ?b = "sensorPart p (dynamicPart p (definitionPart E p []))"
  from assms have pp: "patternPart E p ?b = Inr bd"
    by (simp add: extractBrushParameters_def)
  have b1: "map_of ?b ''patternScale'' = None"
    by (rule pattern_keys_before) simp
  have b2: "map_of ?b ''patternStrength'' = None"
    by (rule pattern_keys_before) simp
  show ?thesis
    using patternPart_scale_eq [OF pp] patternPart_strength_eq [OF pp]
    unfolding b1 b2 by blast
qed

theorem pattern_fields_gated_witness:
  "\<exists>bd. extractBrushParameters exampleEnv patternParams = Inr bd \<and>
      map_of bd ''patternScale'' = Some (JNum (Fin 2)) \<and>
      map_of bd ''patternStrength'' = Some (JNum (Fin (1 / 2)))"
proof -
  have e: "extractBrushParameters exampleEnv patternParams =
      Inr [(''patternScale'', JNum (Fin 2)), (''patternStrength'', JNum (Fin (1 / 2)))]"
    by (simp add: extract_defs example_defs literal_defs patternParams_def)
  have pf: "parseFloat exampleEnv (JStr ''0.5'') = Inr (Fin (1 / 2))"
    by (simp add: parseFloat_def example_defs literal_defs)
  have g: "truthy (pget patternParams ''Texture/Pattern/Pattern'')"
    "pget patternParams ''Texture/Pattern/Scale'' = JNum (Fin 2)"
    "pget patternParams ''Texture/Pattern/Strength'' = JStr ''0.5''"
    by (simp_all add: patternParams_def pget_def)
  from pattern_fields_gated [OF e] have
    "map_of [(''patternScale'', JNum (Fin 2)), (''patternStrength'', JNum (Fin (1 / 2)))]
       ''patternScale'' = Some (JNum (Fin 2)) \<and>
     map_of [(''patternScale'', JNum (Fin 2)), (''patternStrength'', JNum (Fin (1 / 2)))]
       ''patternStrength'' = Some (JNum (Fin (1 / 2)))"
    by (simp add: g pf defined_def)
  with e show ?thesis by blast
qed

text \<open>
  Claim C5: when the \<^verbatim>\<open>brush_definition\<close> parameter is absent, or the parser throws on its
  value or returns a tree without a \<^verbatim>\<open>Brush\<close> root, the failure stays inside
  \<^verbatim>\<open>parseBrushDefinition\<close>: the brush output has none of
  the twelve shape fields and has every dynamic property the parameters hold (opacity,
  scatter, flow, and the curve of each of the five sensors). The extraction itself can
  only end in an exception at the \<^verbatim>\<open>parseFloat\<close> of the pattern strength, which does not
  depend on the brush definition.
\<close>

theorem no_descriptor_keeps_dynamic:
  assumes "pget p ''brush_definition'' = JUndefined \<or>
           (\<exists>e. xmlParse E (pget p ''brush_definition'') = Inl e) \<or>
           (\<exists>parsed. xmlParse E (pget p ''brush_definition'') = Inr parsed \<and>
              \<not> truthy (get parsed ''Brush''))"
  shows "case extractBrushParameters E p of
           Inr bd \<Rightarrow>
             (\<forall>k\<in>set shapeKeys. map_of bd k = None) \<and>
             (defined (pget p ''OpacityValue'') \<longrightarrow>
                map_of bd ''opacity'' = Some (pget p ''OpacityValue'')) \<and>
             (defined (pget p ''ScatterValue'') \<longrightarrow>
                map_of bd ''scatter'' = Some (pget p ''ScatterValue'')) \<and>
             (defined (pget p ''FlowValue'') \<longrightarrow>
                map_of bd ''flow'' = Some (pget p ''FlowValue'')) \<and>
             (\<forall>(pk, ok)\<in>set sensorMappings.
                defined (sensorCurve p pk) \<longrightarrow> map_of bd ok = Some (sensorCurve p pk))
         | Inl e \<Rightarrow>
             truthy (pget p ''Texture/Pattern/Pattern'') \<and>
             defined (pget p ''Texture/Pattern/Strength'') \<and>
             parseFloat E (pget p ''Texture/Pattern/Strength'') = Inl e"
proof (cases "extractBrushParameters E p")
  case (Inl e)
  then have "truthy (pget p ''Texture/Pattern/Pattern'') \<and>
     defined (pget p ''Texture/Pattern/Strength'') \<and>
     parseFloat E (pget p ''Texture/Pattern/Strength'') = Inl e"
    by (simp add: extract_Inl)
  with Inl show ?thesis by simp
next
  case (Inr bd)
  have none: "definitionPart E p [] = []"
    by (rule definitionPart_none [OF assms])
  have shape: "\<forall>k\<in>set shapeKeys. map_of bd k = None"
    using extract_shape [OF Inr] none by simp
  have dyn: "\<And>k. k = ''flow'' \<or> k = ''scatter'' \<or> k = ''opacity'' \<Longrightarrow>
      map_of bd k = map_of (dynamicPart p []) k"
    by (rule extract_dynamic [OF Inr])
  have sens: "\<forall>(pk, ok)\<in>set sensorMappings.
      defined (sensorCurve p pk) \<longrightarrow> map_of bd ok = Some (sensorCurve p pk)"
    using extract_sensor [OF Inr] by blast
  show ?thesis
    using shape sens by (simp add: Inr dyn map_of_dynamicPart)
qed

theorem no_descriptor_keeps_dynamic_witness:
  "xmlParse exampleEnv (pget unparsableParams ''brush_definition'') = Inl ParseError \<and>
   (\<exists>bd. extractBrushParameters exampleEnv unparsableParams = Inr bd \<and>
      map_of bd ''spacing'' = None \<and> map_of bd ''type'' = None \<and>
      map_of bd ''size'' = None \<and>
      map_of bd ''opacity'' = Some (JNum (Fin (4 / 5))) \<and>
      map_of bd ''pressureSize'' = Some (JStr ''0,0;1,1''))"
proof -
  have h: "xmlParse exampleEnv (pget unparsableParams ''brush_definition'') = Inl ParseError"
    by (simp add: example_defs unparsableParams_def pget_def)
  then have "pget unparsableParams ''brush_definition'' = JUndefined \<or>
      (\<exists>e. xmlParse exampleEnv (pget unparsableParams ''brush_definition'') = Inl e) \<or>
      (\<exists>parsed. xmlParse exampleEnv (pget unparsableParams ''brush_definition'') = Inr parsed \<and>
         \<not> truthy (get parsed ''Brush''))"
    by blast
  from no_descriptor_keeps_dynamic [OF this] h show ?thesis
    by (simp add: extract_defs example_defs unparsableParams_def shapeKeys_def sensorCurve_def)
qed



text \<open>
  Claim C7, as the code has it. The claim has every header of the form
  \<^verbatim>\<open>data:image/<subtype>;base64,\<close> removed before decoding. The pattern of line 203 matches
  the subtype with \<^verbatim>\<open>\w+\<close>, letters, digits and the underscore: the header of an
  \<^verbatim>\<open>image/svg+xml\<close> payload is left in place and decoded with the payload, twenty bytes
  where the bare payload gives three.
\<close>

theorem svg_header_not_stripped:
  "stripDataUri ''data:image/svg+xml;base64,AAAA'' = ''data:image/svg+xml;base64,AAAA'' \<and>
   decodePattern exampleEnv ''AAAA'' = [0, 0, 0] \<and>
   decodePattern exampleEnv ''data:image/svg+xml;base64,AAAA'' =
     [117, 171, 90, 138, 102, 160, 123, 251, 47, 131, 236, 102, 149, 182, 172, 123, 174,
      0, 0, 0]"
  by (simp add: decodePattern_def stripDataUri_def isWordChar_def exampleEnv_def
      exampleBase64_def sextet_def)

text \<open>
  Claim C7, amended: for a header \<^verbatim>\<open>data:image/<subtype>;base64,\<close> whose subtype is a
  non-empty run of word characters (letters, digits, underscore: what \<^verbatim>\<open>\w+\<close> matches) and
  a payload made of base64 characters, the bytes decoded from the prefixed payload are
  the bytes decoded from the bare payload, and \<^verbatim>\<open>savePatternBitmap\<close> does the same on
  both.
\<close>

theorem data_uri_prefix_same_bytes:
  assumes "subtype \<noteq> []" and "list_all isWordChar subtype" and "list_all isBase64Char b"
  shows "decodePattern E (dataUriHeader subtype @ b) = decodePattern E b \<and>
         savePatternBitmap E (JStr (dataUriHeader subtype @ b)) f =
           savePatternBitmap E (JStr b) f"
  by (simp add: decodePattern_def savePatternBitmap_def
      strip_header [OF assms(1,2)] strip_bare [OF assms(3)])

theorem data_uri_prefix_same_bytes_witness:
  "list_all isWordChar ''png'' \<and> list_all isBase64Char ''AAAA'' \<and>
   decodePattern exampleEnv ''data:image/png;base64,AAAA'' = [0, 0, 0] \<and>
   decodePattern exampleEnv ''AAAA'' = [0, 0, 0]"
proof -
  have h1: "''png'' \<noteq> []" by simp
  have h2: "list_all isWordChar ''png''" by (simp add: isWordChar_def)
  have h3: "list_all isBase64Char ''AAAA''" by (simp add: isBase64Char_def)
  have v: "decodePattern exampleEnv ''AAAA'' = [0, 0, 0]"
    by (simp add: decodePattern_def stripDataUri_def example_defs)
  from data_uri_prefix_same_bytes [OF h1 h2 h3, of exampleEnv] h2 h3 v show ?thesis
    by (simp add: dataUriHeader_def)
qed

text \<open>
  Claim C8, as the code has it. The claim says that a present, non-numeric
  \<^verbatim>\<open>Texture/Pattern/Strength\<close> always gives a not-a-number \<^verbatim>\<open>patternStrength\<close>. The assignment
  stands under the test of \<^verbatim>\<open>Texture/Pattern/Pattern\<close> (line 179): with the strength
  \<^verbatim>\<open>"abc"\<close> and no pattern, the brush output has no \<^verbatim>\<open>patternStrength\<close> at all.
\<close>

theorem pattern_strength_without_pattern:
  "pget strengthOnlyParams ''Texture/Pattern/Strength'' = JStr ''abc'' \<and>
   extractBrushParameters exampleEnv strengthOnlyParams = Inr [] \<and>
   map_of ([] :: brush) ''patternStrength'' = None"
  by (simp add: extract_defs strengthOnlyParams_def)

text \<open>
  Claim C8, amended: when \<^verbatim>\<open>Texture/Pattern/Pattern\<close> is truthy and the text of a present
  \<^verbatim>\<open>Texture/Pattern/Strength\<close> does not start, after leading white space, with a decimal
  literal, the extraction returns a brush output whose \<^verbatim>\<open>patternStrength\<close> is not-a-number.
\<close>

theorem non_numeric_strength_is_nan:
  assumes "truthy (pget p ''Texture/Pattern/Pattern'')"
    and "defined (pget p ''Texture/Pattern/Strength'')"
    and "toStr (numToString E) (pget p ''Texture/Pattern/Strength'') = Inr s"
    and "decimalPrefix (trimStart s) = None"
  shows "\<exists>bd. extractBrushParameters E p = Inr bd \<and>
              map_of bd ''patternStrength'' = Some (JNum NaN)"
  using assms
  by (simp add: extractBrushParameters_def patternPart_def Let_def parseFloat_def update_conv')

theorem non_numeric_strength_is_nan_witness:
  "truthy (pget nanParams ''Texture/Pattern/Pattern'') \<and>
   pget nanParams ''Texture/Pattern/Strength'' = JStr ''abc'' \<and>
   decimalPrefix (trimStart ''abc'') = None \<and>
   (\<exists>bd. extractBrushParameters exampleEnv nanParams = Inr bd \<and>
      map_of bd ''patternStrength'' = Some (JNum NaN))"
proof -
  have h1: "truthy (pget nanParams ''Texture/Pattern/Pattern'')"
    by (simp add: nanParams_def pget_def)
  have h2: "pget nanParams ''Texture/Pattern/Strength'' = JStr ''abc''"
    by (simp add: nanParams_def pget_def)
  have h3: "defined (pget nanParams ''Texture/Pattern/Strength'')"
    by (simp add: h2 defined_def)
  have h4: "toStr (numToString exampleEnv) (pget nanParams ''Texture/Pattern/Strength'') =
      Inr ''abc''"
    by (simp add: h2)
  have h5: "decimalPrefix (trimStart ''abc'') = None"
    by (simp add: literal_defs)
  from non_numeric_strength_is_nan [OF h1 h3 h4 h5] h1 h2 h5 show ?thesis
    by blast
qed

text \<open>
  Claim C9: a preset whose param entry is not an array (and is a value of a parsed
  tree, so neither \<^verbatim>\<open>null\<close> nor \<^verbatim>\<open>undefined\<close>) decodes to exactly what the same preset
  decodes to with that entry wrapped in a one-element array.
\<close>

theorem single_param_coerced:
  assumes "map_of doc ''Preset'' = Some (JObj al)" and "map_of al ''param'' = Some x"
    and "\<not> isArray x" and "defined x"
  shows "decodePreset E (JObj doc) =
         decodePreset E
           (JObj (AList.update ''Preset'' (JObj (AList.update ''param'' (JArr [x]) al)) doc))"
proof -
  let ?al' = "AList.update ''param'' (JArr [x]) al"
  have g: "get (JObj doc) ''Preset'' = JObj al"
    "get (JObj (AList.update ''Preset'' (JObj ?al') doc)) ''Preset'' = JObj ?al'"
    using assms(1) by (simp_all add: update_conv')
  have n: "optGet (JObj ?al') ''name'' = optGet (JObj al) ''name''"
    "optGet (JObj ?al') ''paintopid'' = optGet (JObj al) ''paintopid''"
    by (simp_all add: optGet_def defined_def update_conv')
  have p: "get (JObj al) ''param'' = x" "get (JObj ?al') ''param'' = JArr [x]"
    using assms(2) by (simp_all add: update_conv')
  have o: "optGet (JObj al) ''param'' = x" "optGet (JObj ?al') ''param'' = JArr [x]"
    using p by (simp_all add: optGet_def defined_def)
  have s: "(if truthy x then flattenParams E (toSeq x) emptyObj else Inr emptyObj) =
      flattenParams E [x] emptyObj"
  proof (cases "truthy x")
    case True
    with assms(3) show ?thesis by (simp add: toSeq_single)
  next
    case False
    then have "flattenStep E emptyObj x = Inr emptyObj"
      using assms(4) by (simp add: flattenStep_falsy_name falsy_has_no_name)
    with False show ?thesis by simp
  qed
  have d: "defined (JObj doc)"
    "defined (JObj (AList.update ''Preset'' (JObj ?al') doc))"
    by (simp_all add: defined_def)
  show ?thesis
    unfolding decodePreset_defined [OF d(1)] decodePreset_defined [OF d(2)] g n o p s
    by simp
qed

theorem single_param_coerced_witness:
  "\<not> isArray coercionEntry \<and> defined coercionEntry \<and>
   decodePreset exampleEnv (JObj [(''Preset'', JObj [(''param'', JArr [coercionEntry])])]) =
     Inr \<lparr>name = JStr [], paintopid = JStr [],
          parameters = \<lparr>own = [(''OpacityValue'', JStr ''v'')], proto = None\<rparr>\<rparr> \<and>
   decodePreset exampleEnv (JObj [(''Preset'', JObj [(''param'', coercionEntry)])]) =
     Inr \<lparr>name = JStr [], paintopid = JStr [],
          parameters = \<lparr>own = [(''OpacityValue'', JStr ''v'')], proto = None\<rparr>\<rparr>"
proof -
  have h1: "map_of [(''Preset'', JObj [(''param'', coercionEntry)])] ''Preset'' =
      Some (JObj [(''param'', coercionEntry)])" by simp
  have h2: "map_of [(''param'', coercionEntry)] ''param'' = Some coercionEntry" by simp
  have h3: "\<not> isArray coercionEntry" by (simp add: coercionEntry_def)
  have h4: "defined coercionEntry" by (simp add: coercionEntry_def defined_def)
  have v: "decodePreset exampleEnv (JObj [(''Preset'', JObj [(''param'', JArr [coercionEntry])])]) =
     Inr \<lparr>name = JStr [], paintopid = JStr [],
          parameters = \<lparr>own = [(''OpacityValue'', JStr ''v'')], proto = None\<rparr>\<rparr>"
    by (simp add: decode_defs coercionEntry_def)
  from single_param_coerced [OF h1 h2 h3 h4, of exampleEnv] h3 h4 v show ?thesis
    by simp
qed

text \<open>
  Claim C10: an entry whose name field is present but falsy is skipped: the turn of the
  loop returns the parameter object unchanged and raises nothing, it does what it does
  for the same entry without the name field, and the whole list decodes as the list
  without that entry.
\<close>

theorem falsy_name_skipped:
  assumes "map_of al ''name'' = Some n" and "\<not> truthy n"
  shows "flattenStep E acc (JObj al) = Inr acc \<and>
         flattenStep E acc (JObj al) = flattenStep E acc (JObj (AList.delete ''name'' al)) \<and>
         flattenParams E (ps @ JObj al # qs) acc = flattenParams E (ps @ qs) acc"
proof -
  have s1: "flattenStep E a (JObj al) = Inr a" for a
    using assms by (simp add: flattenStep_def getProp_def defined_def)
  have s2: "flattenStep E a (JObj (AList.delete ''name'' al)) = Inr a" for a
    by (simp add: flattenStep_def getProp_def defined_def delete_conv')
  show ?thesis
    by (simp add: s1 s2 flattenParams_append split: sum.splits)
qed

theorem falsy_name_skipped_witness:
  "map_of falsyNameEntry ''name'' = Some (JNum (Fin 0)) \<and> \<not> truthy (JNum (Fin 0)) \<and>
   flattenStep exampleEnv emptyObj (JObj falsyNameEntry) = Inr emptyObj \<and>
   flattenParams exampleEnv [JObj falsyNameEntry, coercionEntry] emptyObj =
     Inr \<lparr>own = [(''OpacityValue'', JStr ''v'')], proto = None\<rparr>"
proof -
  have h1: "map_of falsyNameEntry ''name'' = Some (JNum (Fin 0))"
    by (simp add: falsyNameEntry_def)
  have h2: "\<not> truthy (JNum (Fin 0))" by simp
  have v: "flattenParams exampleEnv [coercionEntry] emptyObj =
     Inr \<lparr>own = [(''OpacityValue'', JStr ''v'')], proto = None\<rparr>"
    by (simp add: decode_defs coercionEntry_def)
  from falsy_name_skipped [OF h1 h2, of exampleEnv emptyObj "[]" "[coercionEntry]"] h1 h2 v
  show ?thesis by simp
qed

end
